theory Spec2Isabelle
  imports Main "HOL-Library.Sublist" "HOL-Library.Word"
begin

section \<open>Python string operations used by start\_services.py\<close>

text \<open>
  A Python \<open>str\<close> is modelled as a \<open>string\<close>, and so is the content of a file: a \<open>char\<close>
  stands for a byte of the file and for the code point that text mode decodes it to (the
  files are taken to be in an encoding with one byte for every character). The newline
  translation of text mode is part of the model.
\<close>

abbreviation LF :: char where
  "LF \<equiv> CHR 0x0A"

abbreviation CR :: char where
  "CR \<equiv> CHR 0x0D"

abbreviation DQ :: char where
  "DQ \<equiv> CHR 0x22"

abbreviation SQ :: char where
  "SQ \<equiv> CHR 0x27"

abbreviation BSL :: char where
  "BSL \<equiv> CHR 0x5C"

text \<open>\<open>sub in s\<close>: \<open>sub\<close> occurs in \<open>s\<close> as a contiguous piece.\<close>

definition py_in :: "string \<Rightarrow> string \<Rightarrow> bool" where
  "py_in sub s = sublist sub s"

text \<open>\<open>str.isspace\<close> on one character: TAB, LF, VT, FF, CR, FS, GS, RS, US, space, NEL, NBSP.\<close>

definition py_isspace :: "char \<Rightarrow> bool" where
  "py_isspace c = (of_char c \<in> {9, 10, 11, 12, 13, 28, 29, 30, 31, 32, 133, 160 :: nat})"

definition lstrip :: "string \<Rightarrow> string" where
  "lstrip s = dropWhile py_isspace s"

definition rstrip :: "string \<Rightarrow> string" where
  "rstrip s = rev (dropWhile py_isspace (rev s))"

definition strip :: "string \<Rightarrow> string" where
  "strip s = rstrip (lstrip s)"

definition startswith :: "string \<Rightarrow> string \<Rightarrow> bool" where
  "startswith s p = prefix p s"

text \<open>
  \<open>s.replace(old, new)\<close>: every non-overlapping occurrence of \<open>old\<close>, found from left to
  right, is replaced by \<open>new\<close>. For an empty \<open>old\<close> Python puts \<open>new\<close> before every
  character and at the end.
\<close>

function replace_nonempty :: "string \<Rightarrow> string \<Rightarrow> string \<Rightarrow> string" where
  "replace_nonempty old new [] = []"
| "replace_nonempty old new (c # cs) =
     (if old \<noteq> [] \<and> prefix old (c # cs)
      then new @ replace_nonempty old new (drop (length old) (c # cs))
      else c # replace_nonempty old new cs)"
  by pat_completeness auto
termination
  by (relation "measure (\<lambda>(old, new, s). length s)") (auto simp: neq_Nil_conv)

definition py_replace :: "string \<Rightarrow> string \<Rightarrow> string \<Rightarrow> string" where
  "py_replace s old new =
     (if old = [] then new @ concat (map (\<lambda>c. c # new) s) else replace_nonempty old new s)"

text \<open>
  \<open>s.find(sub, start)\<close>: the lowest index \<open>i \<ge> start\<close> at which \<open>sub\<close> occurs, or \<open>-1\<close>.
  A negative \<open>start\<close> counts from the end and is clipped at 0.
\<close>

fun find_at :: "string \<Rightarrow> string \<Rightarrow> nat \<Rightarrow> int" where
  "find_at sub [] i = (if sub = [] then int i else - 1)"
| "find_at sub (c # cs) i = (if prefix sub (c # cs) then int i else find_at sub cs (Suc i))"

definition py_find :: "string \<Rightarrow> string \<Rightarrow> int \<Rightarrow> int" where
  "py_find s sub start =
     (let n = int (length s);
          st = (if start < 0 then max 0 (start + n) else start)
      in if st > n then - 1 else find_at sub (drop (nat st) s) (nat st))"

text \<open>\<open>s[a:b]\<close> with Python's treatment of negative and out-of-range bounds.\<close>

definition clip_index :: "nat \<Rightarrow> int \<Rightarrow> nat" where
  "clip_index n i = (if i < 0 then nat (max 0 (i + int n)) else min n (nat i))"

definition py_slice :: "string \<Rightarrow> int \<Rightarrow> int \<Rightarrow> string" where
  "py_slice s a b = (let i = clip_index (length s) a; j = clip_index (length s) b
                     in take (j - i) (drop i s))"

text \<open>\<open>s.split('\n')\<close>: the pieces between line feeds; an empty text gives one empty piece.\<close>

fun split_nl :: "string \<Rightarrow> string list" where
  "split_nl [] = [[]]"
| "split_nl (c # cs) =
     (if c = CHR 0x0A then [] # split_nl cs
      else (case split_nl cs of [] \<Rightarrow> [[c]] | p # ps \<Rightarrow> (c # p) # ps))"

text \<open>\<open>file.readlines()\<close>: the lines of a text, each keeping its line feed.\<close>

fun readlines :: "string \<Rightarrow> string list" where
  "readlines [] = []"
| "readlines (c # cs) =
     (if c = CHR 0x0A then [c] # readlines cs
      else (case readlines cs of [] \<Rightarrow> [[c]] | p # ps \<Rightarrow> (c # p) # ps))"

text \<open>\<open>file.writelines(lines)\<close> writes the lines one after the other.\<close>

definition writelines :: "string list \<Rightarrow> string" where
  "writelines ls = concat ls"

text \<open>\<open>" ".join(cmd)\<close>.\<close>

fun join_space :: "string list \<Rightarrow> string" where
  "join_space [] = []"
| "join_space [x] = x"
| "join_space (x # y # ys) = x @ '' '' @ join_space (y # ys)"

text \<open>
  Text mode with the default \<open>newline=None\<close>: on reading, \<open>CR LF\<close> and a lone \<open>CR\<close> become
  \<open>LF\<close>; on writing, every \<open>LF\<close> becomes the line separator of the platform (\<open>os.linesep\<close>).
\<close>

fun universal_newlines :: "string \<Rightarrow> string" where
  "universal_newlines [] = []"
| "universal_newlines [c] = (if c = CR then [LF] else [c])"
| "universal_newlines (c # d # cs) =
     (if c = CR \<and> d = LF then LF # universal_newlines cs
      else if c = CR then LF # universal_newlines (d # cs)
      else c # universal_newlines (d # cs))"

definition translate_newlines :: "string \<Rightarrow> string \<Rightarrow> string" where
  "translate_newlines sep s = concat (map (\<lambda>c. if c = LF then sep else [c]) s)"

text \<open>\<open>'%d' % n\<close> for a natural number.\<close>

fun decimal :: "nat \<Rightarrow> string" where
  "decimal n =
     (if n < 10 then [char_of (48 + n)]
      else decimal (n div 10) @ [char_of (48 + n mod 10)])"

declare decimal.simps [simp del]

definition hex_digit :: "nat \<Rightarrow> char" where
  "hex_digit n = ''0123456789abcdef'' ! n"

text \<open>
  \<open>repr\<close> of a \<open>str\<close> of code points below 256: single quotes, unless the text holds a
  single quote and no double quote; the backslash, the quote in use, TAB, LF and CR are
  escaped with a backslash, and a character that is not printable is written \<open>\xNN\<close>.
\<close>

definition py_printable :: "char \<Rightarrow> bool" where
  "py_printable c =
     (let n = (of_char c :: nat) in (32 \<le> n \<and> n < 127) \<or> (161 \<le> n \<and> n \<noteq> 173))"

definition repr_char :: "char \<Rightarrow> char \<Rightarrow> string" where
  "repr_char q c =
     (if c = BSL then [BSL, BSL]
      else if c = q then [BSL, q]
      else if c = LF then [BSL, CHR ''n'']
      else if c = CR then [BSL, CHR ''r'']
      else if c = CHR 0x09 then [BSL, CHR ''t'']
      else if py_printable c then [c]
      else [BSL, CHR ''x'', hex_digit ((of_char c :: nat) div 16),
            hex_digit ((of_char c :: nat) mod 16)])"

definition py_repr :: "string \<Rightarrow> string" where
  "py_repr s =
     (let q = (if SQ \<in> set s \<and> DQ \<notin> set s then DQ else SQ)
      in q # concat (map (repr_char q) s) @ [q])"

text \<open>\<open>str\<close> of a list of \<open>str\<close>.\<close>

fun join_comma :: "string list \<Rightarrow> string" where
  "join_comma [] = []"
| "join_comma [x] = x"
| "join_comma (x # y # ys) = x @ '', '' @ join_comma (y # ys)"

definition py_str_list :: "string list \<Rightarrow> string" where
  "py_str_list xs = ''['' @ join_comma (map py_repr xs) @ '']''"


section \<open>The world the script runs in\<close>

text \<open>
  The exceptions the script can meet: failed opens and failed external commands. A failed
  command carries how the process ended: with an exit status, or by a signal, given with
  its number and the name the \<open>signal\<close> module has for it (empty when it has none).
\<close>

datatype proc_end = ExitStatus nat | Signal nat string

datatype error =
    FileNotFoundError string
  | PermissionError string
  | IsADirectoryError string
  | CalledProcessError "string list" proc_end

text \<open>The text that \<open>{e}\<close> puts into a message: \<open>str(e)\<close>.\<close>

fun str_of_error :: "error \<Rightarrow> string" where
  "str_of_error (FileNotFoundError p) = ''[Errno 2] No such file or directory: '' @ py_repr p"
| "str_of_error (PermissionError p) = ''[Errno 13] Permission denied: '' @ py_repr p"
| "str_of_error (IsADirectoryError p) = ''[Errno 21] Is a directory: '' @ py_repr p"
| "str_of_error (CalledProcessError cmd (ExitStatus n)) =
     ''Command '' @ [SQ] @ py_str_list cmd @ [SQ] @ '' returned non-zero exit status ''
       @ decimal n @ ''.''"
| "str_of_error (CalledProcessError cmd (Signal n name)) =
     (if name = [] then
        ''Command '' @ [SQ] @ py_str_list cmd @ [SQ] @ '' died with unknown signal ''
          @ decimal n @ ''.''
      else
        ''Command '' @ [SQ] @ py_str_list cmd @ [SQ] @ '' died with <Signals.'' @ name @ '': ''
          @ decimal n @ ''>.'')"

text \<open>
  The state the script reads and changes: the regular files with their bytes (paths relative
  to the directory the script is started in, joined with \<open>/\<close>), the directories, the paths
  that cannot be opened, the current directory as the list of directories entered, the lines
  printed so far, the paths written so far, in order, and the line separator of the
  platform.
\<close>

record world =
  files :: "string \<rightharpoonup> string"
  dirs :: "string set"
  denied :: "string set"
  cwd :: "string list"
  stdout :: "string list"
  writes :: "string list"
  linesep :: string

text \<open>
  The collaborators outside the script: the platform name, the effect of a command started
  through \<open>run_command\<close> (git, docker compose) or of the PowerShell process, the bytes that
  \<open>openssl rand\<close> delivers, the output of \<open>docker ps\<close> and the output of \<open>docker exec\<close> in a
  named container. \<open>Inl\<close> is the exception raised by the call.
\<close>

record env =
  system :: string
  proc :: "string list \<Rightarrow> world \<Rightarrow> error + world"
  openssl_rand :: "nat \<Rightarrow> error + 8 word list"
  docker_ps :: "error + string"
  docker_exec :: "string \<Rightarrow> string list \<Rightarrow> error + string"

text \<open>A step either returns the new world or raises, leaving the world as it was then.\<close>

type_synonym outcome = "(error \<times> world) + world"

definition print :: "string \<Rightarrow> world \<Rightarrow> world" where
  "print s w = w\<lparr>stdout := stdout w @ [s]\<rparr>"

fun print_all :: "string list \<Rightarrow> world \<Rightarrow> world" where
  "print_all [] w = w"
| "print_all (s # ss) w = print_all ss (print s w)"

text \<open>\<open>os.path.exists\<close>.\<close>

definition path_exists :: "world \<Rightarrow> string \<Rightarrow> bool" where
  "path_exists w p = (p \<in> dom (files w) \<or> p \<in> dirs w)"

text \<open>Opening a file for reading and taking all its bytes.\<close>

definition read_bytes :: "world \<Rightarrow> string \<Rightarrow> error + string" where
  "read_bytes w p =
     (case files w p of
        None \<Rightarrow> if p \<in> dirs w then Inl (IsADirectoryError p) else Inl (FileNotFoundError p)
      | Some c \<Rightarrow> if p \<in> denied w then Inl (PermissionError p) else Inr c)"

text \<open>Opening a file for writing, which empties it, and writing the bytes.\<close>

definition write_bytes :: "string \<Rightarrow> string \<Rightarrow> world \<Rightarrow> error + world" where
  "write_bytes p c w =
     (if p \<in> dirs w then Inl (IsADirectoryError p)
      else if p \<in> denied w then Inl (PermissionError p)
      else Inr (w\<lparr>files := (files w)(p \<mapsto> c), writes := writes w @ [p]\<rparr>))"

text \<open>\<open>open(p, 'r')\<close> followed by reading everything, in text mode.\<close>

definition open_read :: "world \<Rightarrow> string \<Rightarrow> error + string" where
  "open_read w p =
     (case read_bytes w p of Inl err \<Rightarrow> Inl err | Inr c \<Rightarrow> Inr (universal_newlines c))"

text \<open>\<open>open(p, 'w')\<close> followed by writing the whole text, in text mode.\<close>

definition open_write :: "string \<Rightarrow> string \<Rightarrow> world \<Rightarrow> error + world" where
  "open_write p c w = write_bytes p (translate_newlines (linesep w) c) w"

text \<open>\<open>shutil.copyfile(src, dst)\<close>, which copies the bytes.\<close>

definition copyfile :: "string \<Rightarrow> string \<Rightarrow> world \<Rightarrow> error + world" where
  "copyfile src dst w =
     (case read_bytes w src of Inl e \<Rightarrow> Inl e | Inr c \<Rightarrow> write_bytes dst c w)"

text \<open>\<open>os.chdir\<close>: \<open>..\<close> leaves the directory entered last.\<close>

definition chdir :: "string \<Rightarrow> world \<Rightarrow> outcome" where
  "chdir d w =
     (if d = ''..'' then Inr (w\<lparr>cwd := butlast (cwd w)\<rparr>)
      else if d \<in> dirs w then Inr (w\<lparr>cwd := cwd w @ [d]\<rparr>)
      else Inl (FileNotFoundError d, w))"

text \<open>Steps in sequence: the first exception ends the sequence.\<close>

fun seq_steps :: "(world \<Rightarrow> outcome) list \<Rightarrow> world \<Rightarrow> outcome" where
  "seq_steps [] w = Inr w"
| "seq_steps (s # ss) w = (case s w of Inl x \<Rightarrow> Inl x | Inr w' \<Rightarrow> seq_steps ss w')"

definition returns :: "(world \<Rightarrow> world) \<Rightarrow> world \<Rightarrow> outcome" where
  "returns f w = Inr (f w)"

section \<open>Commands, repository and environment file\<close>

definition run_command :: "env \<Rightarrow> string list \<Rightarrow> world \<Rightarrow> outcome" where
  "run_command e cmd w =
     (let w1 = print (''Running: '' @ join_space cmd) w
      in case proc e cmd w1 of Inl err \<Rightarrow> Inl (err, w1) | Inr w2 \<Rightarrow> Inr w2)"

definition clone_supabase_repo :: "env \<Rightarrow> world \<Rightarrow> outcome" where
  "clone_supabase_repo e w =
     (if \<not> path_exists w ''supabase'' then
        seq_steps
          [returns (print ''Cloning the Supabase repository...''),
           run_command e [''git'', ''clone'', ''--filter=blob:none'', ''--no-checkout'',
                          ''https://github.com/supabase/supabase.git''],
           chdir ''supabase'',
           run_command e [''git'', ''sparse-checkout'', ''init'', ''--cone''],
           run_command e [''git'', ''sparse-checkout'', ''set'', ''docker''],
           run_command e [''git'', ''checkout'', ''master''],
           chdir ''..''] w
      else
        seq_steps
          [returns (print ''Supabase repository already exists, updating...''),
           chdir ''supabase'',
           run_command e [''git'', ''pull''],
           chdir ''..''] w)"

definition prepare_supabase_env :: "world \<Rightarrow> outcome" where
  "prepare_supabase_env w =
     (let env_path = ''supabase/docker/.env'';
          env_example_path = ''.env'';
          w1 = print ''Copying .env in root to .env in supabase/docker...'' w
      in case copyfile env_example_path env_path w1 of
           Inl err \<Rightarrow> Inl (err, w1)
         | Inr w2 \<Rightarrow> Inr w2)"

definition profile_args :: "string option \<Rightarrow> string list" where
  "profile_args profile =
     (case profile of
        None \<Rightarrow> []
      | Some p \<Rightarrow> if p \<noteq> [] \<and> p \<noteq> ''none'' then [''--profile'', p] else [])"

definition stop_existing_containers :: "env \<Rightarrow> string option \<Rightarrow> world \<Rightarrow> outcome" where
  "stop_existing_containers e profile w =
     run_command e
       ([''docker'', ''compose'', ''-p'', ''localai''] @ profile_args profile
          @ [''-f'', ''docker-compose.yml'', ''down''])
       (print ''Stopping and removing existing containers for the unified project 'localai'...'' w)"

definition start_supabase :: "env \<Rightarrow> world \<Rightarrow> outcome" where
  "start_supabase e w =
     run_command e
       [''docker'', ''compose'', ''-p'', ''localai'', ''-f'',
        ''supabase/docker/docker-compose.yml'', ''up'', ''-d'']
       (print ''Starting Supabase services...'' w)"

definition start_local_ai :: "env \<Rightarrow> string option \<Rightarrow> world \<Rightarrow> outcome" where
  "start_local_ai e profile w =
     run_command e
       ([''docker'', ''compose'', ''-p'', ''localai''] @ profile_args profile
          @ [''-f'', ''docker-compose.yml'', ''up'', ''-d''])
       (print ''Starting local AI services...'' w)"

section \<open>Secret provisioning\<close>

definition hex_byte :: "8 word \<Rightarrow> string" where
  "hex_byte b = [hex_digit (unat b div 16), hex_digit (unat b mod 16)]"

definition hex_encode :: "8 word list \<Rightarrow> string" where
  "hex_encode bs = concat (map hex_byte bs)"

text \<open>
  \<open>subprocess.check_output(["openssl", "rand", "-hex", "32"])\<close>: the hexadecimal form of
  the bytes delivered, followed by a line feed.
\<close>

definition openssl_rand_hex :: "env \<Rightarrow> nat \<Rightarrow> error + string" where
  "openssl_rand_hex e n =
     (case openssl_rand e n of Inl err \<Rightarrow> Inl err | Inr bs \<Rightarrow> Inr (hex_encode bs @ [LF]))"

text \<open>
  \<open>subprocess.run(["sed", "-i", ..., "s|old|new|g", path], check=True)\<close> for texts \<open>old\<close>
  and \<open>new\<close> without characters special to sed: every occurrence of \<open>old\<close> in the file is
  replaced, the rest of the file is kept. A file that cannot be opened makes sed fail, with
  the exit status that \<open>status\<close> gives for the reason.
\<close>

definition sed_inplace ::
  "string list \<Rightarrow> (error \<Rightarrow> nat) \<Rightarrow> string \<Rightarrow> string \<Rightarrow> string \<Rightarrow> world \<Rightarrow> error + world"
where
  "sed_inplace cmd status old new path w =
     (case read_bytes w path of
        Inl err \<Rightarrow> Inl (CalledProcessError cmd (ExitStatus (status err)))
      | Inr c \<Rightarrow>
          (case write_bytes path (py_replace c old new) w of
             Inl err \<Rightarrow> Inl (CalledProcessError cmd (ExitStatus (status err)))
           | Inr w' \<Rightarrow> Inr w'))"

text \<open>
  GNU sed ends with status 2 when the file cannot be read and with status 4 when it is not
  a regular file; the sed of macOS ends with status 1.
\<close>

fun gnu_sed_status :: "error \<Rightarrow> nat" where
  "gnu_sed_status (IsADirectoryError p) = 4"
| "gnu_sed_status err = 2"

definition bsd_sed_status :: "error \<Rightarrow> nat" where
  "bsd_sed_status err = 1"

definition settings_path :: string where
  "settings_path = ''searxng/settings.yml''"

definition settings_base_path :: string where
  "settings_base_path = ''searxng/settings-base.yml''"

definition ps_command :: "string list" where
  "ps_command =
     [''powershell'', ''-Command'',
      ''$randomBytes = New-Object byte[] 32; '' @
      ''(New-Object Security.Cryptography.RNGCryptoServiceProvider).GetBytes($randomBytes); '' @
      ''$secretKey = -join ($randomBytes | ForEach-Object { '' @ [DQ] @ ''{0:x2}'' @ [DQ] @
      '' -f $_ }); '' @
      ''(Get-Content searxng/settings.yml) -replace 'ultrasecretkey', $secretKey | Set-Content searxng/settings.yml'']"

text \<open>The body of the \<open>try\<close> block: one branch for each platform.\<close>

definition generate_key_try :: "env \<Rightarrow> world \<Rightarrow> outcome" where
  "generate_key_try e w =
     (if system e = ''Windows'' then
        (let w1 = print ''Detected Windows platform, using PowerShell to generate secret key...'' w
         in case proc e ps_command w1 of Inl err \<Rightarrow> Inl (err, w1) | Inr w2 \<Rightarrow> Inr w2)
      else if system e = ''Darwin'' then
        (let w1 = print ''Detected macOS platform, using sed command with empty string parameter...'' w
         in case openssl_rand_hex e 32 of
              Inl err \<Rightarrow> Inl (err, w1)
            | Inr out \<Rightarrow>
                (let random_key = strip out;
                     sed_cmd = [''sed'', ''-i'', [],
                                ''s|ultrasecretkey|'' @ random_key @ ''|g'', settings_path]
                 in case sed_inplace sed_cmd bsd_sed_status ''ultrasecretkey'' random_key
                           settings_path w1 of
                      Inl err \<Rightarrow> Inl (err, w1)
                    | Inr w2 \<Rightarrow> Inr w2))
      else
        (let w1 = print ''Detected Linux/Unix platform, using standard sed command...'' w
         in case openssl_rand_hex e 32 of
              Inl err \<Rightarrow> Inl (err, w1)
            | Inr out \<Rightarrow>
                (let random_key = strip out;
                     sed_cmd = [''sed'', ''-i'',
                                ''s|ultrasecretkey|'' @ random_key @ ''|g'', settings_path]
                 in case sed_inplace sed_cmd gnu_sed_status ''ultrasecretkey'' random_key
                           settings_path w1 of
                      Inl err \<Rightarrow> Inl (err, w1)
                    | Inr w2 \<Rightarrow> Inr w2)))"

definition remediation :: "string list" where
  "remediation =
     [''You may need to manually generate the secret key using the commands:'',
      ''  - Linux: sed -i '' @ [DQ] @ ''s|ultrasecretkey|$(openssl rand -hex 32)|g'' @ [DQ] @
        '' searxng/settings.yml'',
      ''  - macOS: sed -i '' @ [CHR 0x27, CHR 0x27] @ '' '' @ [DQ] @
        ''s|ultrasecretkey|$(openssl rand -hex 32)|g'' @ [DQ] @ '' searxng/settings.yml'',
      ''  - Windows (PowerShell):'',
      ''    $randomBytes = New-Object byte[] 32'',
      ''    (New-Object Security.Cryptography.RNGCryptoServiceProvider).GetBytes($randomBytes)'',
      ''    $secretKey = -join ($randomBytes | ForEach-Object { '' @ [DQ] @ ''{0:x2}'' @ [DQ] @
        '' -f $_ })'',
      ''    (Get-Content searxng/settings.yml) -replace 'ultrasecretkey', $secretKey | Set-Content searxng/settings.yml'']"

text \<open>The part of the function after the settings file is known to exist.\<close>

definition generate_key_step :: "env \<Rightarrow> world \<Rightarrow> world" where
  "generate_key_step e w =
     (let w1 = print ''Generating SearXNG secret key...'' w
      in case generate_key_try e w1 of
           Inr w2 \<Rightarrow> print ''SearXNG secret key generated successfully.'' w2
         | Inl (err, w2) \<Rightarrow>
             print_all remediation
               (print (''Error generating SearXNG secret key: '' @ str_of_error err) w2))"

definition generate_searxng_secret_key :: "env \<Rightarrow> world \<Rightarrow> world" where
  "generate_searxng_secret_key e w =
     (let w0 = print ''Checking SearXNG settings...'' w
      in if \<not> path_exists w0 settings_base_path then
           print (''Warning: SearXNG base settings file not found at '' @ settings_base_path) w0
         else if \<not> path_exists w0 settings_path then
           (let w1 = print (''SearXNG settings.yml not found. Creating from '' @ settings_base_path
                            @ ''...'') w0
            in case copyfile settings_base_path settings_path w1 of
                 Inl err \<Rightarrow> print (''Error creating settings.yml: '' @ str_of_error err) w1
               | Inr w2 \<Rightarrow>
                   generate_key_step e
                     (print (''Created '' @ settings_path @ '' from '' @ settings_base_path) w2))
         else
           generate_key_step e
             (print (''SearXNG settings.yml already exists at '' @ settings_path) w0))"

subsection \<open>The PowerShell pipeline\<close>


text \<open>
  Every piece of length \<open>n\<close> that satisfies \<open>M\<close>, found from left to right without overlap,
  is replaced by \<open>new\<close>.
\<close>

function replace_where :: "(string \<Rightarrow> bool) \<Rightarrow> nat \<Rightarrow> string \<Rightarrow> string \<Rightarrow> string" where
  "replace_where M n new [] = []"
| "replace_where M n new (c # cs) =
     (if 0 < n \<and> n \<le> Suc (length cs) \<and> M (take n (c # cs))
      then new @ replace_where M n new (drop n (c # cs))
      else c # replace_where M n new cs)"
  by pat_completeness auto
termination
  by (relation "measure (\<lambda>(M, n, new, s). length s)") auto

text \<open>Some piece of length \<open>n\<close> of the text satisfies \<open>M\<close>.\<close>

fun occurs_where :: "(string \<Rightarrow> bool) \<Rightarrow> nat \<Rightarrow> string \<Rightarrow> bool" where
  "occurs_where M n [] = False"
| "occurs_where M n (c # cs) =
     ((n \<le> Suc (length cs) \<and> M (take n (c # cs))) \<or> occurs_where M n cs)"








subsection \<open>What provisioning is to achieve\<close>


section \<open>Compose hardening toggle\<close>

definition docker_compose_path :: string where
  "docker_compose_path = ''docker-compose.yml''"

definition probe_script :: string where
  "probe_script =
     ''[ -f /etc/searxng/uwsgi.ini ] && echo 'found' || echo 'not_found'' @ [CHR 0x27]"

text \<open>
  What the probe script prints inside the container: \<open>found\<close> when the marker file
  \<open>/etc/searxng/uwsgi.ini\<close> is a regular file there, \<open>not_found\<close> otherwise.
\<close>

definition probe_script_output :: "bool \<Rightarrow> string" where
  "probe_script_output marker_present =
     (if marker_present then ''found'' @ [LF] else ''not_found'' @ [LF])"

text \<open>
  The classification at the start of \<open>check_and_fix_docker_compose_for_searxng\<close>: the value
  of \<open>is_first_run\<close> after the inner \<open>try\<close>, with the lines it prints.
\<close>

definition detect_first_run :: "env \<Rightarrow> world \<Rightarrow> bool \<times> world" where
  "detect_first_run e w =
     (case docker_ps e of
        Inl err \<Rightarrow>
          (True, print (''Error checking Docker container: '' @ str_of_error err
                        @ '' - assuming first run'') w)
      | Inr out \<Rightarrow>
          (case filter (\<lambda>container. container \<noteq> []) (split_nl (strip out)) of
             [] \<Rightarrow> (True, print ''No running SearXNG container found - assuming first run'' w)
           | container_name # _ \<Rightarrow>
               (let w1 = print (''Found running SearXNG container: '' @ container_name) w
                in case docker_exec e container_name [''sh'', ''-c'', probe_script] of
                     Inl err \<Rightarrow>
                       (True, print (''Error checking Docker container: '' @ str_of_error err
                                     @ '' - assuming first run'') w1)
                   | Inr probe_out \<Rightarrow>
                       if py_in ''found'' probe_out
                       then (False, print ''Found uwsgi.ini inside the SearXNG container - not first run'' w1)
                       else (True, print ''uwsgi.ini not found inside the SearXNG container - first run'' w1))))"

text \<open>\<open>len(line) - len(line.lstrip())\<close>.\<close>

definition indent_of :: "string \<Rightarrow> nat" where
  "indent_of line = length line - length (lstrip line)"

definition is_cap_drop_line :: "string \<Rightarrow> bool" where
  "is_cap_drop_line line = (py_in ''cap_drop:'' line \<and> \<not> startswith (strip line) ''#'')"

definition is_all_line :: "string \<Rightarrow> bool" where
  "is_all_line line = (py_in ''- ALL'' line \<and> \<not> startswith (strip line) ''#'')"

text \<open>
  The first pass over the lines from index \<open>i\<close> on, with the loop's variables
  \<open>in_searxng_section\<close>, \<open>searxng_section_indent\<close> and \<open>cap_drop_line_index\<close>. The result is
  \<open>(cap_drop_line_index, cap_drop_value_line_index)\<close>, \<open>-1\<close> for an index not found.
\<close>

fun first_pass :: "string list \<Rightarrow> nat \<Rightarrow> bool \<Rightarrow> nat \<Rightarrow> int \<Rightarrow> int \<times> int" where
  "first_pass [] i in_sec ind cap = (cap, - 1)"
| "first_pass (line # rest) i in_sec ind cap =
     (if py_in ''searxng:'' line \<and> \<not> in_sec then
        first_pass rest (Suc i) True (indent_of line) cap
      else if in_sec then
        (if strip line \<noteq> [] \<and> indent_of line \<le> ind then
           first_pass rest (Suc i) False ind cap
         else if is_cap_drop_line line then
           first_pass rest (Suc i) in_sec ind (int i)
         else if cap \<noteq> - 1 \<and> is_all_line line then
           (cap, int i)
         else first_pass rest (Suc i) in_sec ind cap)
      else first_pass rest (Suc i) in_sec ind cap)"

definition cap_drop_commented :: string where
  "cap_drop_commented = ''# cap_drop: # Temporarily commented out for first run''"

definition all_commented :: string where
  "all_commented = ''# - ALL # Temporarily commented out for first run''"

text \<open>The first-run change of the two lines found.\<close>

definition comment_out :: "string list \<Rightarrow> nat \<Rightarrow> nat \<Rightarrow> string list" where
  "comment_out lines i j =
     (let lines1 = lines[i := py_replace (lines ! i) ''cap_drop:'' cap_drop_commented]
      in lines1[j := py_replace (lines1 ! j) ''- ALL'' all_commented])"

text \<open>
  The loop of the not-first-run branch: the changed lines and the two flags
  \<open>commented_cap_drop_found\<close> and \<open>commented_all_found\<close>.
\<close>

fun uncomment :: "string list \<Rightarrow> bool \<Rightarrow> bool \<Rightarrow> string list \<times> bool \<times> bool" where
  "uncomment [] f1 f2 = ([], f1, f2)"
| "uncomment (line # rest) f1 f2 =
     (if py_in cap_drop_commented line then
        (case uncomment rest True f2 of
           (ls, g1, g2) \<Rightarrow> (py_replace line cap_drop_commented ''cap_drop:'' # ls, g1, g2))
      else if py_in all_commented line then
        (case uncomment rest f1 True of
           (ls, g1, g2) \<Rightarrow> (py_replace line all_commented ''- ALL'' # ls, g1, g2))
      else
        (case uncomment rest f1 f2 of (ls, g1, g2) \<Rightarrow> (line # ls, g1, g2)))"

text \<open>The body of the outer \<open>try\<close> block.\<close>

definition check_and_fix_try :: "env \<Rightarrow> world \<Rightarrow> outcome" where
  "check_and_fix_try e w =
     (case open_read w docker_compose_path of
        Inl err \<Rightarrow> Inl (err, w)
      | Inr content \<Rightarrow>
          (let lines = readlines content;
               (is_first_run, w1) = detect_first_run e w;
               (cap, val) = first_pass lines 0 False 0 (- 1)
           in if is_first_run \<and> cap \<noteq> - 1 \<and> val \<noteq> - 1 then
                (let w2 = print ''First run detected for SearXNG. Temporarily commenting out cap_drop directives...'' w1
                 in case open_write docker_compose_path
                           (writelines (comment_out lines (nat cap) (nat val))) w2 of
                      Inl err \<Rightarrow> Inl (err, w2)
                    | Inr w3 \<Rightarrow>
                        Inr (print ''Note: After the first run completes successfully, you should re-enable 'cap_drop: - ALL' in docker-compose.yml for security reasons.'' w3))
              else if \<not> is_first_run then
                (case uncomment lines False False of
                   (lines', commented_cap_drop_found, commented_all_found) \<Rightarrow>
                     if commented_cap_drop_found \<or> commented_all_found then
                       (let w2 = print ''SearXNG has been initialized. Re-enabling 'cap_drop: - ALL' directive for security...'' w1
                        in case open_write docker_compose_path (writelines lines') w2 of
                             Inl err \<Rightarrow> Inl (err, w2)
                           | Inr w3 \<Rightarrow> Inr w3)
                     else Inr w1)
              else Inr w1))"

definition check_and_fix_docker_compose_for_searxng :: "env \<Rightarrow> world \<Rightarrow> world" where
  "check_and_fix_docker_compose_for_searxng e w =
     (if \<not> path_exists w docker_compose_path then
        print (''Warning: Docker Compose file not found at '' @ docker_compose_path) w
      else
        (case check_and_fix_try e w of
           Inr w' \<Rightarrow> w'
         | Inl (err, w') \<Rightarrow>
             print (''Error checking/modifying docker-compose.yml for SearXNG: ''
                    @ str_of_error err) w'))"

section \<open>Health-check rewriter\<close>

definition supabase_compose_path :: string where
  "supabase_compose_path = ''supabase/docker/docker-compose.yml''"

definition old_endpoint :: string where
  "old_endpoint = ''/api/tenants/realtime-dev/health''"

definition realtime_name :: string where
  "realtime_name = ''realtime-dev.supabase-realtime''"

definition new_healthcheck :: string where
  "new_healthcheck =
     ''healthcheck:'' @ [LF] @
     ''      test:'' @ [LF] @
     ''        ['' @ [LF] @
     ''          '' @ [DQ] @ ''CMD'' @ [DQ] @ '','' @ [LF] @
     ''          '' @ [DQ] @ ''curl'' @ [DQ] @ '','' @ [LF] @
     ''          '' @ [DQ] @ ''-sSfL'' @ [DQ] @ '','' @ [LF] @
     ''          '' @ [DQ] @ ''--head'' @ [DQ] @ '','' @ [LF] @
     ''          '' @ [DQ] @ ''-o'' @ [DQ] @ '','' @ [LF] @
     ''          '' @ [DQ] @ ''/dev/null'' @ [DQ] @ '','' @ [LF] @
     ''          '' @ [DQ] @ ''http://localhost:4000/'' @ [DQ] @ [LF] @
     ''        ]'' @ [LF] @
     ''      timeout: 5s'' @ [LF] @
     ''      interval: 5s'' @ [LF] @
     ''      retries: 3'' @ [LF]"

text \<open>The test that starts the rewrite: the three texts all occur in the file.\<close>

definition triggers :: "string \<Rightarrow> bool" where
  "triggers content =
     (py_in old_endpoint content \<and> py_in ''healthcheck'' content \<and> py_in realtime_name content)"

definition healthcheck_start :: "string \<Rightarrow> int" where
  "healthcheck_start content = py_find content ''healthcheck:'' (py_find content realtime_name 0)"

definition environment_start :: "string \<Rightarrow> int" where
  "environment_start content = py_find content ''environment:'' (healthcheck_start content)"

definition healthcheck_section :: "string \<Rightarrow> string" where
  "healthcheck_section content =
     py_slice content (healthcheck_start content) (environment_start content)"

definition modified_content :: "string \<Rightarrow> string" where
  "modified_content content = py_replace content (healthcheck_section content) new_healthcheck"

text \<open>The body of the \<open>try\<close> block.\<close>

definition fix_healthcheck_try :: "world \<Rightarrow> outcome" where
  "fix_healthcheck_try w =
     (case open_read w supabase_compose_path of
        Inl err \<Rightarrow> Inl (err, w)
      | Inr content \<Rightarrow>
          if triggers content then
            (let w1 = print ''Found problematic Supabase Realtime healthcheck configuration. Replacing with a root URL HTTP check...'' w
             in if healthcheck_start content \<noteq> - 1 \<and> environment_start content \<noteq> - 1 then
                  (case open_write supabase_compose_path (modified_content content) w1 of
                     Inl err \<Rightarrow> Inl (err, w1)
                   | Inr w2 \<Rightarrow>
                       Inr (print ''Successfully updated Supabase Realtime healthcheck to use the root URL instead of the protected endpoint'' w2))
                else
                  Inr (print ''Could not locate exact healthcheck and environment sections in the docker-compose.yml file'' w1))
          else
            Inr (print ''Supabase Realtime healthcheck is already using a non-authenticated configuration or not found'' w))"

text \<open>The traceback of the \<open>except\<close> branch goes to the error stream, which is not kept.\<close>

definition fix_supabase_realtime_healthcheck :: "world \<Rightarrow> world" where
  "fix_supabase_realtime_healthcheck w =
     (let w0 = print ''Checking and fixing Supabase Realtime healthcheck configuration...'' w
      in if \<not> path_exists w0 supabase_compose_path then
           print (''Warning: Supabase docker-compose.yml not found at '' @ supabase_compose_path) w0
         else
           (case fix_healthcheck_try w0 of
              Inr w' \<Rightarrow> w'
            | Inl (err, w') \<Rightarrow>
                print (''Error fixing Supabase Realtime healthcheck: '' @ str_of_error err) w'))"

section \<open>The run\<close>

text \<open>\<open>main\<close> with the profile that the argument parser accepted.\<close>

definition main :: "env \<Rightarrow> string \<Rightarrow> world \<Rightarrow> outcome" where
  "main e profile w =
     seq_steps
       [clone_supabase_repo e,
        prepare_supabase_env,
        returns (generate_searxng_secret_key e),
        returns (check_and_fix_docker_compose_for_searxng e),
        returns fix_supabase_realtime_healthcheck,
        stop_existing_containers e (Some profile),
        start_supabase e,
        returns (print ''Waiting for Supabase to initialize...''),
        start_local_ai e (Some profile)] w"

section \<open>The service block and the states of its directive\<close>

text \<open>
  The block of the service as the specification describes it: it begins after the first
  line that holds the start marker and ends before the first line after it that is not
  blank and is indented no deeper than the marker line.
\<close>

definition is_marker :: "string \<Rightarrow> bool" where
  "is_marker line = py_in ''searxng:'' line"

definition ends_block :: "nat \<Rightarrow> string \<Rightarrow> bool" where
  "ends_block ind line = (strip line \<noteq> [] \<and> indent_of line \<le> ind)"

definition before_block :: "string list \<Rightarrow> string list" where
  "before_block ls = takeWhile (\<lambda>l. \<not> is_marker l) ls"

definition marker_indent :: "string list \<Rightarrow> nat" where
  "marker_indent ls =
     (case dropWhile (\<lambda>l. \<not> is_marker l) ls of [] \<Rightarrow> 0 | m # rest \<Rightarrow> indent_of m)"

definition after_marker :: "string list \<Rightarrow> string list" where
  "after_marker ls = drop 1 (dropWhile (\<lambda>l. \<not> is_marker l) ls)"

definition service_block :: "string list \<Rightarrow> string list" where
  "service_block ls = takeWhile (\<lambda>l. \<not> ends_block (marker_indent ls) l) (after_marker ls)"

text \<open>The lines after the line that ends the block, and the index of the block's first line.\<close>

definition after_block :: "string list \<Rightarrow> string list" where
  "after_block ls
     = drop 1 (dropWhile (\<lambda>l. \<not> ends_block (marker_indent ls) l) (after_marker ls))"

definition block_start :: "string list \<Rightarrow> nat" where
  "block_start ls = Suc (length (before_block ls))"

text \<open>
  The directive in a block. A key line is an uncommented line with \<open>cap_drop:\<close>, a value
  line an uncommented line with \<open>- ALL\<close> that is not a key line. The directive is active
  when a key line is followed by a value line and no line of the block carries one of the
  two commented forms; it is commented when a line with the commented key is followed by a
  line with the commented value and no key line is followed by a value line.
\<close>

definition is_value_line :: "string \<Rightarrow> bool" where
  "is_value_line line = (is_all_line line \<and> \<not> is_cap_drop_line line)"

definition carries_commented :: "string \<Rightarrow> bool" where
  "carries_commented line = (py_in cap_drop_commented line \<or> py_in all_commented line)"

definition key_value_pair :: "string list \<Rightarrow> bool" where
  "key_value_pair blk = list_ex is_value_line (dropWhile (\<lambda>l. \<not> is_cap_drop_line l) blk)"

definition commented_pair :: "string list \<Rightarrow> bool" where
  "commented_pair blk =
     list_ex (py_in all_commented) (drop 1 (dropWhile (\<lambda>l. \<not> py_in cap_drop_commented l) blk))"

definition directive_active :: "string list \<Rightarrow> bool" where
  "directive_active blk = (key_value_pair blk \<and> \<not> list_ex carries_commented blk)"

definition directive_commented :: "string list \<Rightarrow> bool" where
  "directive_commented blk = (commented_pair blk \<and> \<not> key_value_pair blk)"

section \<open>Sample inputs\<close>

text \<open>A Linux host on which every external command succeeds without changing anything.\<close>

definition quiet_env :: env where
  "quiet_env =
     \<lparr>system = ''Linux'', proc = (\<lambda>cmd w. Inr w), openssl_rand = (\<lambda>n. Inr []),
      docker_ps = Inr [], docker_exec = (\<lambda>name cmd. Inr [])\<rparr>"

text \<open>A world whose only file is the Supabase compose file with the given bytes.\<close>

definition supabase_world :: "string \<Rightarrow> world" where
  "supabase_world c =
     \<lparr>files = [supabase_compose_path \<mapsto> c], dirs = {}, denied = {}, cwd = [],
      stdout = [], writes = [], linesep = [LF]\<rparr>"

definition triggers_without_marker :: string where
  "triggers_without_marker =
     ''healthcheck /api/tenants/realtime-dev/health realtime-dev.supabase-realtime''"

text \<open>
  A checkout in which the companion repository and the settings template exist, without a
  root environment file; and the same checkout with one.
\<close>

definition repo_world :: world where
  "repo_world =
     \<lparr>files = [settings_base_path \<mapsto> ''secret_key: ultrasecretkey''],
      dirs = {''supabase'', ''searxng''}, denied = {}, cwd = [], stdout = [], writes = [],
      linesep = [LF]\<rparr>"

definition run_world :: world where
  "run_world = repo_world\<lparr>files := (files repo_world)(''.env'' \<mapsto> ''POSTGRES_PASSWORD=x'')\<rparr>"

text \<open>A host on which \<open>openssl\<close> fails.\<close>

definition openssl_fails_env :: env where
  "openssl_fails_env =
     quiet_env\<lparr>openssl_rand :=
       (\<lambda>n. Inl (CalledProcessError [''openssl'', ''rand'', ''-hex'', ''32''] (ExitStatus 1)))\<rparr>"

text \<open>The checkout with an environment file after the repository step and after the copy.\<close>

definition cloned_world :: world where
  "cloned_world =
     print ''Running: git pull''
       (print ''Supabase repository already exists, updating...'' run_world)"

definition prepared_world :: world where
  "prepared_world =
     (print ''Copying .env in root to .env in supabase/docker...'' cloned_world)
       \<lparr>files := (files run_world)(''supabase/docker/.env'' \<mapsto> ''POSTGRES_PASSWORD=x''),
        writes := [''supabase/docker/.env'']\<rparr>"

text \<open>A host on which every command started through \<open>run_command\<close> fails.\<close>

definition git_fails_env :: env where
  "git_fails_env = quiet_env\<lparr>proc := (\<lambda>cmd w. Inl (CalledProcessError cmd (ExitStatus 1)))\<rparr>"





text \<open>
  The checkout with a settings file in which the placeholder is already replaced; the same
  on the Windows host, the line of the file ending in \<open>LF\<close>; and a settings file there
  that holds the placeholder in capital letters only.
\<close>

definition provisioned_world :: world where
  "provisioned_world =
     repo_world\<lparr>files := (files repo_world)(settings_path \<mapsto> ''secret_key: 00ff'')\<rparr>"

definition windows_lf_world :: world where
  "windows_lf_world =
     repo_world\<lparr>files := (files repo_world)(settings_path \<mapsto> ''secret_key: 00ff'' @ [LF]),
                 linesep := [CR, LF]\<rparr>"

definition windows_crlf_world :: world where
  "windows_crlf_world =
     repo_world\<lparr>files := (files repo_world)(settings_path \<mapsto> ''secret_key: 00ff'' @ [CR, LF]),
                 linesep := [CR, LF]\<rparr>"

definition windows_capitals_world :: world where
  "windows_capitals_world =
     repo_world\<lparr>files := (files repo_world)
                            (settings_path \<mapsto> ''secret_key: ULTRASECRETKEY'' @ [CR, LF]),
                 linesep := [CR, LF]\<rparr>"

text \<open>A world whose only file is the compose file with the given bytes.\<close>

definition compose_world :: "string \<Rightarrow> world" where
  "compose_world c =
     \<lparr>files = [docker_compose_path \<mapsto> c], dirs = {}, denied = {}, cwd = [],
      stdout = [], writes = [], linesep = [LF]\<rparr>"

text \<open>A compose file with the directive active, and the same file with it commented.\<close>

definition active_compose :: string where
  "active_compose =
     ''services:'' @ [LF] @
     ''  searxng:'' @ [LF] @
     ''    image: searxng/searxng:latest'' @ [LF] @
     ''    cap_drop:'' @ [LF] @
     ''      - ALL'' @ [LF] @
     ''    cap_add:'' @ [LF] @
     ''      - CHOWN'' @ [LF]"

definition commented_compose :: string where
  "commented_compose =
     ''services:'' @ [LF] @
     ''  searxng:'' @ [LF] @
     ''    image: searxng/searxng:latest'' @ [LF] @
     ''    # cap_drop: # Temporarily commented out for first run'' @ [LF] @
     ''      # - ALL # Temporarily commented out for first run'' @ [LF] @
     ''    cap_add:'' @ [LF] @
     ''      - CHOWN'' @ [LF]"

text \<open>A host with a running container in which the marker file exists.\<close>

definition initialized_env :: env where
  "initialized_env =
     quiet_env\<lparr>docker_ps := Inr (''searxng'' @ [LF]),
               docker_exec := (\<lambda>name cmd. Inr (probe_script_output True))\<rparr>"

text \<open>
  A compose file in which the directive of the service block is active and a line of
  another service carries the commented key; and a compose file in which the directive of
  the service block is commented and a later line that contains the marker text opens a
  second stretch with an active pair.
\<close>

definition redis_commented_compose :: string where
  "redis_commented_compose =
     ''services:'' @ [LF] @
     ''  redis:'' @ [LF] @
     ''    # cap_drop: # Temporarily commented out for first run'' @ [LF] @
     ''  searxng:'' @ [LF] @
     ''    cap_drop:'' @ [LF] @
     ''      - ALL'' @ [LF]"

definition reopened_compose :: string where
  "reopened_compose =
     ''  searxng:'' @ [LF] @
     ''    # cap_drop: # Temporarily commented out for first run'' @ [LF] @
     ''      # - ALL # Temporarily commented out for first run'' @ [LF] @
     ''  caddy:'' @ [LF] @
     ''    labels:'' @ [LF] @
     ''      proxy.searxng: on'' @ [LF] @
     ''        cap_drop:'' @ [LF] @
     ''          - ALL'' @ [LF]"

text \<open>
  A compose file whose service block has two key lines before the value line, and a
  compose file whose lines end in \<open>CR LF\<close>.
\<close>

definition two_keys_compose :: string where
  "two_keys_compose =
     ''  searxng:'' @ [LF] @
     ''    cap_drop:'' @ [LF] @
     ''    cap_drop:'' @ [LF] @
     ''      - ALL'' @ [LF]"

definition crlf_compose :: string where
  "crlf_compose =
     ''  searxng:'' @ [CR, LF] @
     ''    cap_drop:'' @ [CR, LF] @
     ''      - ALL'' @ [CR, LF]"

text \<open>
  No piece of \<open>x\<close> can start inside \<open>ys\<close> and run to or past its end, and \<open>x\<close> does not
  occur in \<open>ys\<close>: at every position of \<open>ys\<close> the two texts differ before either ends.
\<close>

primrec no_overlap :: "string \<Rightarrow> string \<Rightarrow> bool" where
  "no_overlap x [] = True"
| "no_overlap x (c # cs) = (\<not> prefix x (c # cs) \<and> \<not> prefix (c # cs) x \<and> no_overlap x cs)"

text \<open>
  A compose file with the obsolete health check of the realtime service, and a file in
  which the span's text also occurs before the service name and the obsolete path lies
  outside every span.
\<close>

definition realtime_compose :: string where
  "realtime_compose =
     ''  realtime:'' @ [LF] @
     ''    container_name: realtime-dev.supabase-realtime'' @ [LF] @
     ''    healthcheck:'' @ [LF] @
     ''      test: [curl, http://localhost:4000/api/tenants/realtime-dev/health]'' @ [LF] @
     ''    environment:'' @ [LF] @
     ''      PORT: 4000'' @ [LF]"

definition path_outside_compose :: string where
  "path_outside_compose =
     ''# /api/tenants/realtime-dev/health'' @ [LF] @
     ''healthcheck: environment: realtime-dev.supabase-realtime healthcheck: environment:''"

text \<open>
  What the two sample files become: the first with its one span rewritten, the second with
  both occurrences of its span's text rewritten.
\<close>

definition rewritten_compose :: string where
  "rewritten_compose =
     ''  realtime:'' @ [LF] @
     ''    container_name: realtime-dev.supabase-realtime'' @ [LF] @
     ''    '' @ new_healthcheck @
     ''environment:'' @ [LF] @
     ''      PORT: 4000'' @ [LF]"

definition twice_rewritten :: string where
  "twice_rewritten =
     ''# /api/tenants/realtime-dev/health'' @ [LF] @
     new_healthcheck @ ''environment: realtime-dev.supabase-realtime '' @
     new_healthcheck @ ''environment:''"

section \<open>Properties of the first-run classification\<close>

text \<open>
  C1. A container is found and the probe reports the marker file absent: the probe prints
  \<open>not_found\<close>, in which the test \<open>"found" in stdout\<close> finds \<open>found\<close>, so the invocation is
  classified not-first-run, where the claim (and the message of the other branch) says
  first-run.
\<close>

theorem marker_absent_classified_not_first_run:
  "fst (detect_first_run
          (quiet_env\<lparr>docker_ps := Inr (''searxng'' @ [LF]),
                     docker_exec := (\<lambda>name cmd. Inr (probe_script_output False))\<rparr>) w) = False"
  by (simp add: detect_first_run_def quiet_env_def strip_def lstrip_def rstrip_def
        py_isspace_def probe_script_output_def py_in_def sublist_code(3) Let_def)

section \<open>Properties of text mode\<close>

text \<open>
  A text without carriage returns is read as it is, and with the line feed as separator a
  text is written as it is. Lines read with \<open>readlines\<close> and written with \<open>writelines\<close>
  give the text back.
\<close>

lemma universal_no_cr: "CR \<notin> set s \<Longrightarrow> universal_newlines s = s"
  by (induction s rule: universal_newlines.induct) auto

lemma translate_lf: "translate_newlines [LF] s = s"
  by (induction s) (simp_all add: translate_newlines_def)

lemma translate_concat:
  "translate_newlines sep (concat ls) = concat (map (translate_newlines sep) ls)"
  by (induction ls) (simp_all add: translate_newlines_def)

lemma writelines_readlines: "writelines (readlines s) = s"
  by (induction s) (auto simp: writelines_def split: list.splits)

section \<open>Properties of replacement\<close>

lemma replace_nonempty_absent:
  "\<not> sublist old s \<Longrightarrow> replace_nonempty old new s = s"
proof (induction old new s rule: replace_nonempty.induct)
  case (1 old new)
  then show ?case by simp
next
  case (2 old new c cs)
  from "2.prems" have np: "\<not> prefix old (c # cs)" and ns: "\<not> sublist old cs"
    by (auto simp: sublist_Cons_right)
  with "2.IH"(2) show ?case by simp
qed

lemma py_replace_absent:
  "\<not> py_in old s \<Longrightarrow> py_replace s old new = s"
  by (auto simp: py_in_def py_replace_def replace_nonempty_absent)

lemma sublist_across_char:
  assumes "c \<notin> set x"
  shows "sublist x (a @ c # b) \<longleftrightarrow> sublist x a \<or> sublist x b"
proof
  assume "sublist x (a @ c # b)"
  then consider "sublist x a" | "sublist x (c # b)"
    | x1 x2 where "x = x1 @ x2" "suffix x1 a" "prefix x2 (c # b)"
    by (auto simp: sublist_append)
  then show "sublist x a \<or> sublist x b"
  proof cases
    case 1
    then show ?thesis by simp
  next
    case 2
    with assms have "sublist x b"
      by (cases x) (auto simp: sublist_Cons_right)
    then show ?thesis by simp
  next
    case 3
    with assms have "x2 = []" by (cases x2) auto
    with 3 show ?thesis by auto
  qed
next
  assume "sublist x a \<or> sublist x b"
  then show "sublist x (a @ c # b)"
    by (metis sublist_append sublist_Cons_right)
qed


lemma occurs_where_prefix:
  assumes "occurs_where M n p"
  shows "occurs_where M n (p @ r)"
  using assms
proof (induction p)
  case Nil
  then show ?case by simp
next
  case (Cons a p)
  show ?case
  proof (cases "n \<le> Suc (length p) \<and> M (take n (a # p))")
    case True
    then have "take n (a # p @ r) = take n (a # p)" by (cases n) simp_all
    with True show ?thesis by simp
  next
    case False
    with Cons.prems have "occurs_where M n p" by simp
    from Cons.IH [OF this] show ?thesis by simp
  qed
qed



lemma occurs_where_piece:
  "occurs_where M n s \<Longrightarrow> \<exists>x. M x \<and> length x = n \<and> sublist x s"
proof (induction s)
  case Nil
  then show ?case by simp
next
  case (Cons c cs)
  show ?case
  proof (cases "n \<le> Suc (length cs) \<and> M (take n (c # cs))")
    case True
    have "prefix (take n (c # cs)) (c # cs)" by (rule take_is_prefix)
    then have "sublist (take n (c # cs)) (c # cs)" by (rule prefix_imp_sublist)
    moreover have "length (take n (c # cs)) = n" using True by simp
    ultimately show ?thesis using True by blast
  next
    case False
    with Cons.prems have "occurs_where M n cs" by auto
    from Cons.IH [OF this] obtain x where "M x" "length x = n" "sublist x cs" by blast
    then show ?thesis by (auto simp: sublist_Cons_right)
  qed
qed

lemma replace_where_absent:
  "\<not> occurs_where M n s \<Longrightarrow> replace_where M n new s = s"
  by (induction M n new s rule: replace_where.induct) auto







section \<open>Properties of the health-check rewriter\<close>

lemma no_trigger_sample: "\<not> triggers ''services: {}''"
  by (simp add: triggers_def py_in_def sublist_code(3) old_endpoint_def realtime_name_def)

lemma triggers_sample: "triggers triggers_without_marker"
  by (simp add: triggers_without_marker_def triggers_def py_in_def sublist_code(3)
        old_endpoint_def realtime_name_def)

lemma no_marker_sample: "healthcheck_start triggers_without_marker = - 1"
  by (simp add: triggers_without_marker_def healthcheck_start_def py_find_def
        realtime_name_def Let_def)

text \<open>
  C8. The rewriter leaves the file as it is outside the full-trigger case: when one of the
  three trigger texts is missing from the text read, nothing is written; when all three
  occur but the
  \<open>healthcheck:\<close> or the \<open>environment:\<close> marker is not found, nothing is written and the
  last line printed is the diagnostic.
\<close>

theorem healthcheck_untouched_outside_full_trigger:
  assumes "files w supabase_compose_path = Some raw" and "content = universal_newlines raw"
  shows "(\<not> triggers content \<longrightarrow>
            files (fix_supabase_realtime_healthcheck w) = files w \<and>
            writes (fix_supabase_realtime_healthcheck w) = writes w) \<and>
         (triggers content \<and>
            (healthcheck_start content = - 1 \<or> environment_start content = - 1) \<longrightarrow>
            files (fix_supabase_realtime_healthcheck w) = files w \<and>
            writes (fix_supabase_realtime_healthcheck w) = writes w \<and>
            (supabase_compose_path \<notin> denied w \<longrightarrow>
               last (stdout (fix_supabase_realtime_healthcheck w)) =
                 ''Could not locate exact healthcheck and environment sections in the docker-compose.yml file''))"
  using assms
  by (auto simp: fix_supabase_realtime_healthcheck_def fix_healthcheck_try_def path_exists_def
        open_read_def read_bytes_def print_def Let_def)

theorem healthcheck_untouched_outside_full_trigger_witness:
  "files (fix_supabase_realtime_healthcheck (supabase_world ''services: {}''))
     = files (supabase_world ''services: {}'') \<and>
   writes (fix_supabase_realtime_healthcheck (supabase_world ''services: {}'')) = [] \<and>
   files (fix_supabase_realtime_healthcheck (supabase_world triggers_without_marker))
     = files (supabase_world triggers_without_marker) \<and>
   writes (fix_supabase_realtime_healthcheck (supabase_world triggers_without_marker)) = [] \<and>
   last (stdout (fix_supabase_realtime_healthcheck (supabase_world triggers_without_marker))) =
     ''Could not locate exact healthcheck and environment sections in the docker-compose.yml file''"
proof -
  have f1: "files (supabase_world ''services: {}'') supabase_compose_path = Some ''services: {}''"
    and f2: "files (supabase_world triggers_without_marker) supabase_compose_path
               = Some triggers_without_marker"
    by (simp_all add: supabase_world_def)
  have u1: "''services: {}'' = universal_newlines ''services: {}''"
    and u2: "triggers_without_marker = universal_newlines triggers_without_marker"
    by (simp_all add: triggers_without_marker_def)
  have d: "supabase_compose_path \<notin> denied (supabase_world triggers_without_marker)"
      "writes (supabase_world triggers_without_marker) = []"
      "writes (supabase_world ''services: {}'') = []"
    by (simp_all add: supabase_world_def)
  show ?thesis
    using healthcheck_untouched_outside_full_trigger [OF f1 u1]
      healthcheck_untouched_outside_full_trigger [OF f2 u2]
      no_trigger_sample triggers_sample no_marker_sample d
    by simp
qed

section \<open>Properties of the run\<close>

lemma clone_repo_world:
  "clone_supabase_repo quiet_env repo_world =
     Inr (print ''Running: git pull''
            (print ''Supabase repository already exists, updating...'' repo_world))"
  by (simp add: clone_supabase_repo_def path_exists_def repo_world_def quiet_env_def
        returns_def chdir_def run_command_def print_def Let_def)

text \<open>
  C9. When the root environment file \<open>.env\<close> is absent, the copy in the
  environment-propagation step raises \<open>FileNotFoundError\<close>, which nothing catches: the run
  ends there, with the world as the repository step left it and one more line printed, so
  none of the secret-provisioning, hardening-toggle and health-check steps has run. A
  failure of the repository step before it ends the run as well.
\<close>

theorem env_file_absent_aborts_run:
  "(clone_supabase_repo e w = Inl x \<longrightarrow> main e profile w = Inl x) \<and>
   (clone_supabase_repo e w = Inr w1 \<and> \<not> path_exists w1 ''.env'' \<longrightarrow>
      main e profile w =
        Inl (FileNotFoundError ''.env'',
             print ''Copying .env in root to .env in supabase/docker...'' w1))"
  by (simp add: main_def prepare_supabase_env_def copyfile_def read_bytes_def path_exists_def
        print_def Let_def domIff)

lemma clone_git_fails:
  "clone_supabase_repo git_fails_env repo_world =
     Inl (CalledProcessError [''git'', ''pull''] (ExitStatus 1),
          (print ''Running: git pull''
             (print ''Supabase repository already exists, updating...'' repo_world))
            \<lparr>cwd := [''supabase'']\<rparr>)"
  by (simp add: clone_supabase_repo_def path_exists_def repo_world_def git_fails_env_def
        quiet_env_def returns_def chdir_def run_command_def print_def Let_def)

theorem env_file_absent_aborts_run_witness:
  "main quiet_env ''cpu'' repo_world =
     Inl (FileNotFoundError ''.env'',
          print ''Copying .env in root to .env in supabase/docker...''
            (print ''Running: git pull''
               (print ''Supabase repository already exists, updating...'' repo_world))) \<and>
   main git_fails_env ''cpu'' repo_world =
     Inl (CalledProcessError [''git'', ''pull''] (ExitStatus 1),
          (print ''Running: git pull''
             (print ''Supabase repository already exists, updating...'' repo_world))
            \<lparr>cwd := [''supabase'']\<rparr>)"
proof -
  have "\<not> path_exists (print ''Running: git pull''
            (print ''Supabase repository already exists, updating...'' repo_world)) ''.env''"
    by (simp add: path_exists_def print_def repo_world_def settings_base_path_def)
  with clone_repo_world clone_git_fails show ?thesis
    using env_file_absent_aborts_run [of quiet_env repo_world _ "''cpu''"]
      env_file_absent_aborts_run [of git_fails_env repo_world _ "''cpu''"]
    by simp
qed

lemma stdout_print_all: "stdout (print_all ss w) = stdout w @ ss"
  by (induction ss arbitrary: w) (simp_all add: print_def)

lemma files_print_all [simp]: "files (print_all ss w) = files w"
  by (induction ss arbitrary: w) (simp_all add: print_def)

lemma writes_print_all [simp]: "writes (print_all ss w) = writes w"
  by (induction ss arbitrary: w) (simp_all add: print_def)

lemma generate_key_step_failure:
  assumes "if system e = ''Windows'' then \<forall>w'. proc e ps_command w' = Inl err
           else openssl_rand e 32 = Inl err"
  shows "suffix ((''Error generating SearXNG secret key: '' @ str_of_error err) # remediation)
           (stdout (generate_key_step e w))"
  using assms
  by (auto simp: generate_key_step_def generate_key_try_def openssl_rand_hex_def Let_def
        stdout_print_all print_def suffix_def)

lemma path_exists_print: "path_exists (print s w) p = path_exists w p"
  by (simp add: path_exists_def print_def)

lemma copyfile_print: "copyfile a b (print s w) = map_sum id (print s) (copyfile a b w)"
  by (auto simp: copyfile_def read_bytes_def write_bytes_def print_def split: option.splits)

text \<open>
  C5, as the code has it. A failure of the secret-generation command (\<open>openssl\<close>, or the
  PowerShell pipeline on Windows) is caught inside the step: the step prints the error and
  the manual commands and returns, and the run goes on with the hardening toggle, the
  health-check rewriter and the container commands.
\<close>

theorem secret_generation_failure_is_caught:
  assumes "clone_supabase_repo e w = Inr w1" and "prepare_supabase_env w1 = Inr w2"
    and "path_exists w2 settings_base_path"
    and "path_exists w2 settings_path \<or> \<not> isl (copyfile settings_base_path settings_path w2)"
    and "if system e = ''Windows'' then \<forall>w'. proc e ps_command w' = Inl err
         else openssl_rand e 32 = Inl err"
  shows "suffix ((''Error generating SearXNG secret key: '' @ str_of_error err) # remediation)
           (stdout (generate_searxng_secret_key e w2)) \<and>
         main e profile w =
           seq_steps
             [stop_existing_containers e (Some profile), start_supabase e,
              returns (print ''Waiting for Supabase to initialize...''),
              start_local_ai e (Some profile)]
             (fix_supabase_realtime_healthcheck
                (check_and_fix_docker_compose_for_searxng e
                   (generate_searxng_secret_key e w2)))"
proof
  show "suffix ((''Error generating SearXNG secret key: '' @ str_of_error err) # remediation)
           (stdout (generate_searxng_secret_key e w2))"
  proof (cases "path_exists w2 settings_path")
    case True
    with assms(3) have eq: "generate_searxng_secret_key e w2 =
        generate_key_step e (print (''SearXNG settings.yml already exists at '' @ settings_path)
          (print ''Checking SearXNG settings...'' w2))"
      by (simp add: generate_searxng_secret_key_def Let_def path_exists_print)
    show ?thesis
      unfolding eq by (rule generate_key_step_failure [OF assms(5)])
  next
    case False
    with assms(4) obtain w3 where "copyfile settings_base_path settings_path w2 = Inr w3"
      by (cases "copyfile settings_base_path settings_path w2") auto
    with False assms(3) have "\<exists>w4. generate_searxng_secret_key e w2 = generate_key_step e w4"
      by (auto simp: generate_searxng_secret_key_def Let_def path_exists_print copyfile_print)
    then obtain w4 where eq: "generate_searxng_secret_key e w2 = generate_key_step e w4" ..
    show ?thesis
      unfolding eq by (rule generate_key_step_failure [OF assms(5)])
  qed
next
  show "main e profile w =
           seq_steps
             [stop_existing_containers e (Some profile), start_supabase e,
              returns (print ''Waiting for Supabase to initialize...''),
              start_local_ai e (Some profile)]
             (fix_supabase_realtime_healthcheck
                (check_and_fix_docker_compose_for_searxng e
                   (generate_searxng_secret_key e w2)))"
    using assms(1,2) by (simp add: main_def returns_def)
qed

text \<open>
  C5, as stated, fails: with \<open>openssl\<close> failing the whole run still completes, its last
  line being the start of the local AI services.
\<close>

theorem secret_generation_failure_aborts_counterexample:
  "openssl_rand openssl_fails_env 32 = Inl (CalledProcessError [''openssl'', ''rand'', ''-hex'', ''32''] (ExitStatus 1)) \<and>
   \<not> isl (main openssl_fails_env ''cpu'' run_world) \<and>
   last (stdout (projr (main openssl_fails_env ''cpu'' run_world))) =
     ''Running: docker compose -p localai --profile cpu -f docker-compose.yml up -d''"
  by (simp add: openssl_fails_env_def quiet_env_def run_world_def repo_world_def main_def
        clone_supabase_repo_def prepare_supabase_env_def generate_searxng_secret_key_def
        generate_key_step_def generate_key_try_def openssl_rand_hex_def
        check_and_fix_docker_compose_for_searxng_def fix_supabase_realtime_healthcheck_def
        stop_existing_containers_def start_supabase_def start_local_ai_def run_command_def
        profile_args_def returns_def chdir_def copyfile_def read_bytes_def write_bytes_def open_read_def open_write_def
        path_exists_def print_def Let_def settings_path_def settings_base_path_def
        docker_compose_path_def supabase_compose_path_def stdout_print_all)


lemma clone_run_world: "clone_supabase_repo openssl_fails_env run_world = Inr cloned_world"
  by (simp add: clone_supabase_repo_def path_exists_def run_world_def repo_world_def
        openssl_fails_env_def quiet_env_def cloned_world_def
        returns_def chdir_def run_command_def print_def Let_def)

lemma prepare_cloned_world: "prepare_supabase_env cloned_world = Inr prepared_world"
  by (simp add: prepare_supabase_env_def copyfile_def read_bytes_def write_bytes_def open_read_def open_write_def
        cloned_world_def prepared_world_def run_world_def repo_world_def print_def Let_def)

theorem secret_generation_failure_is_caught_witness:
  "suffix ((''Error generating SearXNG secret key: ''
             @ str_of_error (CalledProcessError [''openssl'', ''rand'', ''-hex'', ''32'']
                 (ExitStatus 1)))
           # remediation)
     (stdout (generate_searxng_secret_key openssl_fails_env prepared_world)) \<and>
   main openssl_fails_env ''cpu'' run_world =
     seq_steps
       [stop_existing_containers openssl_fails_env (Some ''cpu''), start_supabase openssl_fails_env,
        returns (print ''Waiting for Supabase to initialize...''),
        start_local_ai openssl_fails_env (Some ''cpu'')]
       (fix_supabase_realtime_healthcheck
          (check_and_fix_docker_compose_for_searxng openssl_fails_env
             (generate_searxng_secret_key openssl_fails_env prepared_world)))"
proof -
  have b: "path_exists prepared_world settings_base_path"
    by (simp add: path_exists_def prepared_world_def run_world_def repo_world_def
          settings_base_path_def)
  have c: "path_exists prepared_world settings_path \<or>
           \<not> isl (copyfile settings_base_path settings_path prepared_world)"
    by (simp add: copyfile_def read_bytes_def write_bytes_def open_read_def open_write_def prepared_world_def cloned_world_def
          run_world_def repo_world_def print_def settings_base_path_def settings_path_def)
  have f: "if system openssl_fails_env = ''Windows''
           then \<forall>w'. proc openssl_fails_env ps_command w'
                  = Inl (CalledProcessError [''openssl'', ''rand'', ''-hex'', ''32''] (ExitStatus 1))
           else openssl_rand openssl_fails_env 32
                  = Inl (CalledProcessError [''openssl'', ''rand'', ''-hex'', ''32''] (ExitStatus 1))"
    by (simp add: openssl_fails_env_def quiet_env_def)
  show ?thesis
    by (rule secret_generation_failure_is_caught [OF clone_run_world prepare_cloned_world b c f])
qed

section \<open>Properties of secret provisioning\<close>





































section \<open>Properties of the hardening toggle\<close>

lemmas line_tests = py_in_def sublist_code(3) indent_of_def lstrip_def strip_def rstrip_def
  py_isspace_def is_cap_drop_line_def is_all_line_def startswith_def

lemma detect_first_run_frame:
  "files (snd (detect_first_run e w)) = files w \<and>
   writes (snd (detect_first_run e w)) = writes w \<and>
   dirs (snd (detect_first_run e w)) = dirs w \<and>
   denied (snd (detect_first_run e w)) = denied w \<and>
   linesep (snd (detect_first_run e w)) = linesep w"
  by (simp add: detect_first_run_def print_def Let_def split: sum.splits list.splits)

lemma quiet_first_run: "fst (detect_first_run quiet_env w)"
  by (simp add: detect_first_run_def quiet_env_def strip_def lstrip_def rstrip_def)

lemma initialized_not_first_run: "\<not> fst (detect_first_run initialized_env w)"
  by (simp add: detect_first_run_def initialized_env_def quiet_env_def strip_def lstrip_def
        rstrip_def py_isspace_def probe_script_output_def py_in_def sublist_code(3) Let_def)

subsection \<open>Commenting and uncommenting\<close>

lemma prefix_before_replace:
  assumes "new \<noteq> []" "hd new \<notin> set q" "prefix q (replace_nonempty old new s)"
  shows "prefix q s"
  using assms
proof (induction old new s arbitrary: q rule: replace_nonempty.induct)
  case (1 old new)
  then show ?case by simp
next
  case (2 old new c cs)
  show ?case
  proof (cases q)
    case Nil
    then show ?thesis by simp
  next
    case (Cons x q')
    show ?thesis
    proof (cases "old \<noteq> [] \<and> prefix old (c # cs)")
      case True
      with "2.prems"(3) have "prefix q (new @ replace_nonempty old new (drop (length old) (c # cs)))"
        by simp
      with Cons "2.prems"(1) have "x = hd new" by (cases new) auto
      with Cons "2.prems"(2) show ?thesis by simp
    next
      case False
      with "2.prems"(3) Cons have x: "x = c" and p: "prefix q' (replace_nonempty old new cs)"
        by auto
      from "2.prems"(2) Cons have "hd new \<notin> set q'" by simp
      from "2.IH"(2) [OF False "2.prems"(1) this p] x Cons show ?thesis by simp
    qed
  qed
qed

lemma no_old_after_padding:
  assumes "old \<noteq> []" "new \<noteq> []" "hd new \<notin> set (p @ old)"
    and "prefix (p @ old) (replace_nonempty old new s)"
  shows False
  using assms
proof (induction p arbitrary: s)
  case Nil
  then have po: "prefix old (replace_nonempty old new s)" by simp
  from Nil have "hd new \<notin> set old" by simp
  from prefix_before_replace [OF Nil.prems(2) this po] have ps: "prefix old s" .
  with Nil.prems(1) obtain c cs where s: "s = c # cs" by (cases s) auto
  with ps Nil.prems(1) have "replace_nonempty old new s
      = new @ replace_nonempty old new (drop (length old) s)" by simp
  with po have "prefix old (new @ replace_nonempty old new (drop (length old) s))" by simp
  with Nil.prems(1,2) have "hd old = hd new" by (cases old; cases new) auto
  with Nil.prems(1,3) show ?case by (cases old) auto
next
  case (Cons a p)
  from Cons.prems(4) obtain c cs where s: "s = c # cs"
    by (cases s) auto
  show ?case
  proof (cases "prefix old (c # cs)")
    case True
    with Cons.prems(1) s Cons.prems(4)
    have "prefix ((a # p) @ old) (new @ replace_nonempty old new (drop (length old) (c # cs)))"
      by simp
    with Cons.prems(2) have "a = hd new" by (cases new) auto
    with Cons.prems(3) show ?thesis by simp
  next
    case False
    with s Cons.prems(4) have "prefix (p @ old) (replace_nonempty old new cs)" by simp
    moreover from Cons.prems(3) have "hd new \<notin> set (p @ old)" by simp
    ultimately show ?thesis using Cons.IH [OF Cons.prems(1,2)] by blast
  qed
qed

lemma replace_new_first:
  assumes "new \<noteq> []"
  shows "replace_nonempty new old (new @ z) = old @ replace_nonempty new old z"
proof -
  from assms obtain n ns where new: "new = n # ns" by (cases new) auto
  have "replace_nonempty new old (n # (ns @ z)) =
      (if new \<noteq> [] \<and> prefix new (n # (ns @ z))
       then old @ replace_nonempty new old (drop (length new) (n # (ns @ z)))
       else n # replace_nonempty new old (ns @ z))"
    by (rule replace_nonempty.simps(2))
  moreover have "prefix new (n # (ns @ z))" by (simp add: new)
  moreover have "drop (length new) (n # (ns @ z)) = z" by (simp add: new)
  ultimately show ?thesis using assms by (simp add: new)
qed

lemma replace_round_trip:
  assumes "old \<noteq> []" and "new = a # p @ old @ t" and "a \<notin> set (p @ old)"
  shows "replace_nonempty new old (replace_nonempty old new s) = s"
  using assms
proof (induction old new s rule: replace_nonempty.induct)
  case (1 old new)
  then show ?case by simp
next
  case (2 old new c cs)
  have nn: "new \<noteq> []" using "2.prems"(2) by simp
  show ?case
  proof (cases "old \<noteq> [] \<and> prefix old (c # cs)")
    case True
    from "2.IH"(1) [OF True "2.prems"]
    have ih: "replace_nonempty new old (replace_nonempty old new (drop (length old) (c # cs)))
        = drop (length old) (c # cs)" .
    from True have "old @ drop (length old) (c # cs) = c # cs"
      by (metis append_eq_conv_conj prefix_def)
    with True ih nn show ?thesis
      by (simp add: replace_new_first del: drop_Suc_Cons)
  next
    case False
    from "2.IH"(2) [OF False "2.prems"]
    have ih: "replace_nonempty new old (replace_nonempty old new cs) = cs" .
    have "\<not> prefix new (c # replace_nonempty old new cs)"
    proof
      assume "prefix new (c # replace_nonempty old new cs)"
      with "2.prems"(2) have "prefix (p @ old @ t) (replace_nonempty old new cs)" by auto
      then have "prefix (p @ old) (replace_nonempty old new cs)"
        by (metis append.assoc append_prefixD)
      moreover have "hd new \<notin> set (p @ old)" using "2.prems"(2,3) by simp
      ultimately show False
        using no_old_after_padding [OF "2.prems"(1) nn] by blast
    qed
    with False ih show ?thesis by auto
  qed
qed

lemma replace_puts_new:
  "old \<noteq> [] \<Longrightarrow> sublist old s \<Longrightarrow> sublist new (replace_nonempty old new s)"
proof (induction old new s rule: replace_nonempty.induct)
  case (1 old new)
  then show ?case by simp
next
  case (2 old new c cs)
  show ?case
  proof (cases "prefix old (c # cs)")
    case True
    with "2.prems"(1) show ?thesis by simp
  next
    case False
    with "2.prems" have "sublist old cs" by (simp add: sublist_Cons_right)
    with "2.IH"(2) False "2.prems"(1) have "sublist new (replace_nonempty old new cs)" by simp
    with False show ?thesis by (simp add: sublist_Cons_right)
  qed
qed

lemma no_overlap_append:
  "no_overlap x ys \<Longrightarrow> \<not> sublist x z \<Longrightarrow> \<not> sublist x (ys @ z)"
proof (induction ys)
  case Nil
  then show ?case by simp
next
  case (Cons y ys)
  then have "\<not> prefix x (y # ys)" "\<not> prefix (y # ys) x" by simp_all
  then have "\<not> prefix x ((y # ys) @ z)"
    unfolding prefix_append by (auto simp: prefix_def)
  with Cons show ?case by (simp add: sublist_Cons_right)
qed

lemma replace_keeps_absent:
  assumes "new \<noteq> []" "hd new \<notin> set x" "no_overlap x new" "\<not> sublist x s"
  shows "\<not> sublist x (replace_nonempty old new s)"
  using assms
proof (induction old new s rule: replace_nonempty.induct)
  case (1 old new)
  then show ?case by simp
next
  case (2 old new c cs)
  show ?case
  proof (cases "old \<noteq> [] \<and> prefix old (c # cs)")
    case True
    have "\<not> sublist x (drop (length old) (c # cs))"
      using "2.prems"(4) by (meson sublist_drop sublist_order.order_trans)
    from "2.IH"(1) [OF True "2.prems"(1,2,3) this]
    have "\<not> sublist x (replace_nonempty old new (drop (length old) (c # cs)))" .
    from no_overlap_append [OF "2.prems"(3) this] True show ?thesis by simp
  next
    case False
    from "2.prems"(4) have np: "\<not> prefix x (c # cs)" and ns: "\<not> sublist x cs"
      by (auto simp: sublist_Cons_right)
    from "2.IH"(2) [OF False "2.prems"(1,2,3) ns]
    have ih: "\<not> sublist x (replace_nonempty old new cs)" .
    have "\<not> prefix x (c # replace_nonempty old new cs)"
    proof
      assume "prefix x (c # replace_nonempty old new cs)"
      with False have "prefix x (replace_nonempty old new (c # cs))" by auto
      from prefix_before_replace [OF "2.prems"(1,2) this] np show False by simp
    qed
    with ih False show ?thesis by (auto simp: sublist_Cons_right)
  qed
qed

lemma cap_drop_commented_shape:
  "cap_drop_commented
     = CHR ''#'' # '' '' @ ''cap_drop:'' @ '' # Temporarily commented out for first run''"
  by (simp add: cap_drop_commented_def)

lemma all_commented_shape:
  "all_commented = CHR ''#'' # '' '' @ ''- ALL'' @ '' # Temporarily commented out for first run''"
  by (simp add: all_commented_def)

lemma key_line_round_trip:
  "py_replace (py_replace key ''cap_drop:'' cap_drop_commented) cap_drop_commented ''cap_drop:''
     = key"
proof -
  have "replace_nonempty cap_drop_commented ''cap_drop:''
          (replace_nonempty ''cap_drop:'' cap_drop_commented key) = key"
    by (rule replace_round_trip [OF _ cap_drop_commented_shape]) simp_all
  then show ?thesis
    by (simp add: py_replace_def) (simp add: cap_drop_commented_def)
qed

lemma value_line_round_trip:
  "py_replace (py_replace val ''- ALL'' all_commented) all_commented ''- ALL'' = val"
proof -
  have "replace_nonempty all_commented ''- ALL''
          (replace_nonempty ''- ALL'' all_commented val) = val"
    by (rule replace_round_trip [OF _ all_commented_shape]) simp_all
  then show ?thesis
    by (simp add: py_replace_def) (simp add: all_commented_def)
qed

lemma key_line_commented:
  "py_in ''cap_drop:'' key \<Longrightarrow> py_in cap_drop_commented (py_replace key ''cap_drop:'' cap_drop_commented)"
  using replace_puts_new [of "''cap_drop:''" key cap_drop_commented]
  by (simp add: py_in_def py_replace_def)

lemma value_line_commented:
  "py_in ''- ALL'' val \<Longrightarrow> py_in all_commented (py_replace val ''- ALL'' all_commented)"
  using replace_puts_new [of "''- ALL''" val all_commented]
  by (simp add: py_in_def py_replace_def)

lemma value_line_no_key:
  assumes "\<not> py_in ''cap_drop:'' val"
  shows "\<not> py_in cap_drop_commented (py_replace val ''- ALL'' all_commented)"
proof
  assume "py_in cap_drop_commented (py_replace val ''- ALL'' all_commented)"
  then have c: "sublist cap_drop_commented (replace_nonempty ''- ALL'' all_commented val)"
    by (simp add: py_in_def py_replace_def)
  have "sublist ''cap_drop:'' cap_drop_commented"
    unfolding cap_drop_commented_shape
    by (metis append_Cons append_Nil sublist_appendI)
  with c have "sublist ''cap_drop:'' (replace_nonempty ''- ALL'' all_commented val)"
    using sublist_order.order_trans by blast
  moreover have "\<not> sublist ''cap_drop:'' (replace_nonempty ''- ALL'' all_commented val)"
  proof (rule replace_keeps_absent)
    show "all_commented \<noteq> []" by (simp add: all_commented_def)
    show "hd all_commented \<notin> set ''cap_drop:''" by (simp add: all_commented_def)
    show "no_overlap ''cap_drop:'' all_commented" by (simp add: all_commented_def)
    show "\<not> sublist ''cap_drop:'' val" using assms by (simp add: py_in_def)
  qed
  ultimately show False by simp
qed

text \<open>
  C4. For a key line and a value line as the first pass accepts them (an uncommented line
  containing \<open>cap_drop:\<close>, and an uncommented line containing \<open>- ALL\<close> that is not a key
  line), the first-run change followed by the not-first-run loop gives back the two lines,
  character for character.
\<close>

theorem toggle_round_trip:
  assumes "is_cap_drop_line key" and "is_all_line val" and "\<not> is_cap_drop_line val"
  shows "fst (uncomment (comment_out [key, val] 0 1) False False) = [key, val]"
proof -
  from assms have k: "py_in ''cap_drop:'' key" and v: "py_in ''- ALL'' val"
    and n: "\<not> py_in ''cap_drop:'' val"
    by (auto simp: is_cap_drop_line_def is_all_line_def)
  show ?thesis
    by (simp add: comment_out_def Let_def key_line_commented [OF k] value_line_commented [OF v]
          value_line_no_key [OF n] key_line_round_trip value_line_round_trip)
qed

theorem toggle_round_trip_witness:
  "fst (uncomment (comment_out [''    cap_drop:'' @ [LF], ''      - ALL'' @ [LF]] 0 1) False False)
     = [''    cap_drop:'' @ [LF], ''      - ALL'' @ [LF]]"
proof -
  have "is_cap_drop_line (''    cap_drop:'' @ [LF])" "is_all_line (''      - ALL'' @ [LF])"
    "\<not> is_cap_drop_line (''      - ALL'' @ [LF])"
    by (simp_all add: line_tests)
  then show ?thesis by (rule toggle_round_trip)
qed

section \<open>Properties of the rewrite of the located span\<close>

subsection \<open>Searching and replacing\<close>

text \<open>A successful search returns a position at which the text starts, not before \<open>start\<close>.\<close>

lemma find_at_found:
  "find_at sub s i = r \<Longrightarrow> r \<noteq> - 1 \<Longrightarrow>
     \<exists>k. r = int (i + k) \<and> k \<le> length s \<and> prefix sub (drop k s)"
proof (induction s arbitrary: i)
  case Nil
  then show ?case by (auto split: if_splits)
next
  case (Cons c cs)
  show ?case
  proof (cases "prefix sub (c # cs)")
    case True
    with Cons.prems have "r = int (i + 0) \<and> 0 \<le> length (c # cs) \<and> prefix sub (drop 0 (c # cs))"
      by simp
    then show ?thesis by blast
  next
    case False
    with Cons.prems have "find_at sub cs (Suc i) = r" by simp
    from Cons.IH [OF this Cons.prems(2)] obtain k
      where "r = int (Suc i + k)" "k \<le> length cs" "prefix sub (drop k cs)" by blast
    then have "r = int (i + Suc k) \<and> Suc k \<le> length (c # cs) \<and> prefix sub (drop (Suc k) (c # cs))"
      by simp
    then show ?thesis by blast
  qed
qed

lemma py_find_found:
  assumes "py_find s sub start = r" and "r \<noteq> - 1"
  shows "0 \<le> r \<and> nat r \<le> length s \<and> prefix sub (drop (nat r) s) \<and> (0 \<le> start \<longrightarrow> start \<le> r)"
proof -
  define st where "st = (if start < 0 then max 0 (start + int (length s)) else start)"
  from assms have le: "st \<le> int (length s)" and f: "find_at sub (drop (nat st) s) (nat st) = r"
    by (auto simp: py_find_def Let_def st_def split: if_splits)
  have st0: "0 \<le> st" by (simp add: st_def)
  from find_at_found [OF f assms(2)] obtain k
    where k: "r = int (nat st + k)" "k \<le> length (drop (nat st) s)"
      "prefix sub (drop k (drop (nat st) s))" by blast
  from le st0 have n: "nat st \<le> length s" by simp
  from k(1) st0 have r: "nat r = k + nat st" by (simp add: nat_add_distrib)
  from k(2) n have "k + nat st \<le> length s" by simp
  moreover from k(3) have "prefix sub (drop (k + nat st) s)" by (simp add: add.commute)
  moreover from k(1) st0 have "0 \<le> start \<longrightarrow> start \<le> r" by (simp add: st_def)
  moreover from k(1) have "0 \<le> r" by simp
  ultimately show ?thesis using r by simp
qed

lemma replace_first:
  assumes "old \<noteq> []" and "\<not> sublist old (pre @ butlast old)"
  shows "replace_nonempty old new (pre @ old @ post) = pre @ new @ replace_nonempty old new post"
  using assms(2)
proof (induction pre)
  case Nil
  from assms(1) obtain n ns where old: "old = n # ns" by (cases old) auto
  have "replace_nonempty old new (n # (ns @ post)) =
      (if old \<noteq> [] \<and> prefix old (n # (ns @ post))
       then new @ replace_nonempty old new (drop (length old) (n # (ns @ post)))
       else n # replace_nonempty old new (ns @ post))"
    by (rule replace_nonempty.simps(2))
  moreover have "prefix old (n # (ns @ post))" by (simp add: old)
  moreover have "drop (length old) (n # (ns @ post)) = post" by (simp add: old)
  ultimately show ?case using assms(1) by (simp add: old)
next
  case (Cons c pre)
  have np: "\<not> prefix old (c # pre @ old @ post)"
  proof
    assume p: "prefix old (c # pre @ old @ post)"
    have "c # pre @ old @ post = ((c # pre) @ butlast old) @ (last old # post)"
      using assms(1) by simp
    with p have "prefix old (((c # pre) @ butlast old) @ (last old # post))" by simp
    moreover have "length old \<le> length ((c # pre) @ butlast old)" by simp
    ultimately have "prefix old ((c # pre) @ butlast old)"
      by (metis prefix_append prefix_length_le append_Nil2 prefix_order.dual_order.antisym prefix_def le_antisym append_eq_append_conv)
    with Cons.prems show False by auto
  qed
  from Cons.prems have "\<not> sublist old (pre @ butlast old)"
    by (auto simp: sublist_Cons_right)
  from Cons.IH [OF this] np show ?case by simp
qed

subsection \<open>The located span\<close>

text \<open>
  When both markers are found, the span is a non-empty piece of the file that begins with
  the \<open>healthcheck:\<close> marker and ends right before the \<open>environment:\<close> marker.
\<close>

lemma span_located:
  assumes "healthcheck_start content \<noteq> - 1" and "environment_start content \<noteq> - 1"
  shows "0 \<le> healthcheck_start content \<and>
         healthcheck_start content < environment_start content \<and>
         nat (environment_start content) \<le> length content \<and>
         healthcheck_section content \<noteq> [] \<and>
         length (healthcheck_section content)
           = nat (environment_start content) - nat (healthcheck_start content) \<and>
         prefix ''healthcheck:'' (drop (nat (healthcheck_start content)) content) \<and>
         content = take (nat (healthcheck_start content)) content
                    @ healthcheck_section content
                    @ drop (nat (environment_start content)) content"
proof -
  let ?hs = "healthcheck_start content" and ?es = "environment_start content"
  from py_find_found [OF _ assms(1) [unfolded healthcheck_start_def], OF refl]
  have h: "0 \<le> ?hs" "nat ?hs \<le> length content" "prefix ''healthcheck:'' (drop (nat ?hs) content)"
    by (simp_all add: healthcheck_start_def)
  from py_find_found [OF _ assms(2) [unfolded environment_start_def], OF refl]
  have e: "0 \<le> ?es" "nat ?es \<le> length content" "prefix ''environment:'' (drop (nat ?es) content)"
    "0 \<le> ?hs \<longrightarrow> ?hs \<le> ?es"
    by (simp_all add: environment_start_def)
  have ne: "?hs \<noteq> ?es"
  proof
    assume "?hs = ?es"
    with h(3) e(3) show False
      by (cases "drop (nat ?es) content") auto
  qed
  with h(1) e(4) have lt: "?hs < ?es" by simp
  have sec: "healthcheck_section content = take (nat ?es - nat ?hs) (drop (nat ?hs) content)"
    using h e by (simp add: healthcheck_section_def py_slice_def clip_index_def Let_def)
  have "drop (nat ?hs) content
      = take (nat ?es - nat ?hs) (drop (nat ?hs) content) @ drop (nat ?es) content"
    using lt h(1) by (metis append_take_drop_id drop_drop le_add_diff_inverse2 less_imp_le nat_mono)
  then have split: "content = take (nat ?hs) content @ healthcheck_section content
                      @ drop (nat ?es) content"
    unfolding sec by (metis append_take_drop_id)
  have n1: "nat ?hs < nat ?es" using lt h(1) by simp
  have n2: "nat ?hs < length content" using n1 e(2) by (rule less_le_trans)
  define a b where "a = nat ?hs" and "b = nat ?es"
  from n1 n2 have "a < b" "a < length content" by (simp_all only: a_def b_def)
  then have "take (b - a) (drop a content) \<noteq> []" by simp
  then have "healthcheck_section content \<noteq> []"
    unfolding sec a_def b_def .
  moreover note h(3)
  moreover have "length (healthcheck_section content) = nat ?es - nat ?hs"
    unfolding sec using e(2) by simp
  ultimately show ?thesis using h lt e split by simp
qed

text \<open>The obsolete path has no line feed, so it cannot reach across the new block.\<close>

lemma sublist_across_block:
  assumes "c \<notin> set x" and "n = p @ c # m @ [c]" and "\<not> sublist x m"
  shows "sublist x (a @ n @ b) \<longleftrightarrow> sublist x (a @ p) \<or> sublist x b"
proof -
  have "a @ n @ b = (a @ p) @ c # (m @ c # b)" by (simp add: assms(2))
  then have "sublist x (a @ n @ b) \<longleftrightarrow> sublist x (a @ p) \<or> sublist x (m @ c # b)"
    using sublist_across_char [OF assms(1), of "a @ p" "m @ c # b"] by simp
  also have "sublist x (m @ c # b) \<longleftrightarrow> sublist x m \<or> sublist x b"
    by (rule sublist_across_char [OF assms(1)])
  finally show ?thesis using assms(3) by simp
qed

lemma new_healthcheck_shape:
  "new_healthcheck = ''healthcheck:'' @ LF # butlast (drop 13 new_healthcheck) @ [LF]"
  by (simp add: new_healthcheck_def)

lemma endpoint_not_in_block:
  "\<not> sublist old_endpoint (butlast (drop 13 new_healthcheck))"
  by (simp add: new_healthcheck_def old_endpoint_def sublist_code(3))

lemma endpoint_across_block:
  "sublist old_endpoint (a @ new_healthcheck @ b)
     \<longleftrightarrow> sublist old_endpoint (a @ ''healthcheck:'') \<or> sublist old_endpoint b"
proof -
  have lf: "LF \<notin> set old_endpoint" by (simp add: old_endpoint_def)
  show ?thesis by (rule sublist_across_block [OF lf new_healthcheck_shape endpoint_not_in_block])
qed

lemma healthcheck_write:
  assumes "files w supabase_compose_path = Some raw" and "content = universal_newlines raw"
    and "supabase_compose_path \<notin> dirs w" and "supabase_compose_path \<notin> denied w"
    and "triggers content"
    and "healthcheck_start content \<noteq> - 1" and "environment_start content \<noteq> - 1"
  shows "files (fix_supabase_realtime_healthcheck w)
           = (files w)(supabase_compose_path \<mapsto>
                translate_newlines (linesep w) (modified_content content)) \<and>
         writes (fix_supabase_realtime_healthcheck w) = writes w @ [supabase_compose_path] \<and>
         last (stdout (fix_supabase_realtime_healthcheck w)) =
           ''Successfully updated Supabase Realtime healthcheck to use the root URL instead of the protected endpoint''"
  using assms
  by (simp add: fix_supabase_realtime_healthcheck_def fix_healthcheck_try_def path_exists_def
        open_read_def open_write_def read_bytes_def write_bytes_def print_def Let_def domI)

lemma take_before_last:
  assumes "length pre = h" and "length s = e - h" and "h < e"
  shows "take (e - 1) (pre @ s @ post) = pre @ butlast s"
proof -
  from assms have "e - 1 - h = length s - 1" and "h \<le> e - 1" by simp_all
  with assms(1) show ?thesis by (simp add: butlast_conv_take)
qed

lemma span_rewritten_once:
  assumes "healthcheck_start content \<noteq> - 1" and "environment_start content \<noteq> - 1"
    and "\<not> py_in (healthcheck_section content) (take (nat (environment_start content) - 1) content)"
    and "\<not> py_in (healthcheck_section content) (drop (nat (environment_start content)) content)"
  shows "modified_content content
           = take (nat (healthcheck_start content)) content @ new_healthcheck
               @ drop (nat (environment_start content)) content"
proof -
  let ?hs = "nat (healthcheck_start content)" and ?es = "nat (environment_start content)"
  let ?sec = "healthcheck_section content"
  from span_located [OF assms(1,2)]
  have ne: "?sec \<noteq> []" and len: "length ?sec = ?es - ?hs"
    and split: "content = take ?hs content @ ?sec @ drop ?es content"
    and lt: "?hs < ?es" and le: "?es \<le> length content"
    by simp_all
  note hl = less_le_trans [OF lt le, THEN less_imp_le]
  have "length (take ?hs content) = ?hs" by (simp only: length_take min.absorb2 [OF hl])
  from take_before_last [OF this len lt, of "drop ?es content"] split
  have "take (?es - 1) content = take ?hs content @ butlast ?sec" by simp
  with assms(3) have before: "\<not> sublist ?sec (take ?hs content @ butlast ?sec)"
    by (simp add: py_in_def)
  from assms(4) have after: "\<not> sublist ?sec (drop ?es content)" by (simp add: py_in_def)
  have "modified_content content
      = replace_nonempty ?sec new_healthcheck (take ?hs content @ ?sec @ drop ?es content)"
    using ne split by (simp add: modified_content_def py_replace_def)
  also have "\<dots> = take ?hs content @ new_healthcheck
                      @ replace_nonempty ?sec new_healthcheck (drop ?es content)"
    by (rule replace_first [OF ne before])
  also have "replace_nonempty ?sec new_healthcheck (drop ?es content) = drop ?es content"
    by (rule replace_nonempty_absent [OF after])
  finally show ?thesis .
qed

lemma block_written:
  assumes "healthcheck_start content \<noteq> - 1" and "environment_start content \<noteq> - 1"
  shows "py_in new_healthcheck (modified_content content)"
proof -
  from span_located [OF assms]
  have ne: "healthcheck_section content \<noteq> []"
    and split: "content = take (nat (healthcheck_start content)) content
                  @ healthcheck_section content
                  @ drop (nat (environment_start content)) content"
    by simp_all
  have "sublist (healthcheck_section content) content"
    by (subst (2) split) (rule sublist_appendI)
  from replace_puts_new [OF ne this] ne show ?thesis
    by (simp add: modified_content_def py_replace_def py_in_def)
qed

lemma endpoint_removed:
  assumes "healthcheck_start content \<noteq> - 1" and "environment_start content \<noteq> - 1"
    and "\<not> py_in old_endpoint (take (nat (healthcheck_start content) + 12) content)"
    and "\<not> py_in old_endpoint (drop (nat (environment_start content)) content)"
  shows "\<not> py_in old_endpoint
             (take (nat (healthcheck_start content)) content @ new_healthcheck
                @ drop (nat (environment_start content)) content)"
proof -
  let ?hs = "nat (healthcheck_start content)"
  from span_located [OF assms(1,2)]
  have "prefix ''healthcheck:'' (drop ?hs content)" by simp
  then obtain z where "drop ?hs content = ''healthcheck:'' @ z" by (auto simp: prefix_def)
  then have "take 12 (drop ?hs content) = ''healthcheck:''" by simp
  then have "take (?hs + 12) content = take ?hs content @ ''healthcheck:''"
    by (simp add: take_add)
  with assms(3,4) show ?thesis
    by (simp add: py_in_def endpoint_across_block)
qed

text \<open>
  C3. When the file can be read and written, the three trigger texts occur in the text read
  and both markers are found, the file is written once and its new text (which text mode
  writes with the line separator of the platform) is the old one with every occurrence of
  the located span's text replaced by the corrected block, which it therefore contains.
  When the span's text occurs at the located position only (no occurrence starts before it
  and none lies after it), the new text is the old one with exactly that span replaced; and
  when, in addition, the obsolete path occurs neither in the text up to the end of the
  span's \<open>healthcheck:\<close> marker nor in the text from the \<open>environment:\<close> marker on, the
  obsolete path is gone.
\<close>

theorem healthcheck_rewrite_replaces_span_text:
  assumes "files w supabase_compose_path = Some raw" and "content = universal_newlines raw"
    and "supabase_compose_path \<notin> dirs w" and "supabase_compose_path \<notin> denied w"
    and "triggers content"
    and "healthcheck_start content \<noteq> - 1" and "environment_start content \<noteq> - 1"
  shows "files (fix_supabase_realtime_healthcheck w)
           = (files w)(supabase_compose_path \<mapsto>
                translate_newlines (linesep w)
                  (py_replace content (healthcheck_section content) new_healthcheck)) \<and>
         writes (fix_supabase_realtime_healthcheck w) = writes w @ [supabase_compose_path] \<and>
         py_in new_healthcheck
           (py_replace content (healthcheck_section content) new_healthcheck) \<and>
         (\<not> py_in (healthcheck_section content)
              (take (nat (environment_start content) - 1) content) \<and>
          \<not> py_in (healthcheck_section content)
              (drop (nat (environment_start content)) content) \<longrightarrow>
            py_replace content (healthcheck_section content) new_healthcheck
              = take (nat (healthcheck_start content)) content @ new_healthcheck
                  @ drop (nat (environment_start content)) content \<and>
            (\<not> py_in old_endpoint (take (nat (healthcheck_start content) + 12) content) \<and>
             \<not> py_in old_endpoint (drop (nat (environment_start content)) content) \<longrightarrow>
               \<not> py_in old_endpoint
                   (py_replace content (healthcheck_section content) new_healthcheck)))"
proof -
  note w = healthcheck_write [OF assms]
  note b = block_written [OF assms(6,7)]
  note o = span_rewritten_once [OF assms(6,7)]
  note r = endpoint_removed [OF assms(6,7)]
  show ?thesis
    using w b o r unfolding modified_content_def by auto
qed

subsection \<open>The sample files\<close>

lemma realtime_triggers: "triggers realtime_compose"
  by (simp add: realtime_compose_def triggers_def py_in_def sublist_code(3)
        old_endpoint_def realtime_name_def)

lemma realtime_healthcheck_start: "healthcheck_start realtime_compose = 67"
  by (simp add: realtime_compose_def healthcheck_start_def py_find_def realtime_name_def Let_def)

lemma realtime_environment_start: "environment_start realtime_compose = 158"
  unfolding environment_start_def realtime_healthcheck_start
  by (simp add: realtime_compose_def py_find_def Let_def)

lemma realtime_section:
  "healthcheck_section realtime_compose =
     ''healthcheck:'' @ [LF] @
     ''      test: [curl, http://localhost:4000/api/tenants/realtime-dev/health]'' @ [LF] @
     ''    ''"
  unfolding healthcheck_section_def realtime_healthcheck_start realtime_environment_start
  by (simp add: realtime_compose_def py_slice_def clip_index_def Let_def)

lemma realtime_span_unique:
  "\<not> py_in (healthcheck_section realtime_compose) (take (158 - 1) realtime_compose) \<and>
   \<not> py_in (healthcheck_section realtime_compose) (drop 158 realtime_compose)"
  unfolding realtime_section
  by (simp add: realtime_compose_def py_in_def sublist_code(3))

lemma realtime_endpoint_inside:
  "\<not> py_in old_endpoint (take (67 + 12) realtime_compose) \<and>
   \<not> py_in old_endpoint (drop 158 realtime_compose)"
  by (simp add: realtime_compose_def old_endpoint_def py_in_def sublist_code(3))

lemma realtime_pieces:
  "take 67 realtime_compose @ new_healthcheck @ drop 158 realtime_compose = rewritten_compose"
  by (simp add: realtime_compose_def rewritten_compose_def)

theorem healthcheck_rewrite_replaces_span_text_witness:
  "files (fix_supabase_realtime_healthcheck (supabase_world realtime_compose))
     = [supabase_compose_path \<mapsto> rewritten_compose] \<and>
   writes (fix_supabase_realtime_healthcheck (supabase_world realtime_compose))
     = [supabase_compose_path] \<and>
   py_in new_healthcheck rewritten_compose \<and>
   \<not> py_in old_endpoint rewritten_compose"
proof -
  let ?w = "supabase_world realtime_compose"
  have f: "files ?w supabase_compose_path = Some realtime_compose"
    and d: "supabase_compose_path \<notin> dirs ?w" "supabase_compose_path \<notin> denied ?w"
    by (simp_all add: supabase_world_def)
  have u: "realtime_compose = universal_newlines realtime_compose"
    by (rule universal_no_cr [symmetric]) (simp add: realtime_compose_def)
  have hs: "healthcheck_start realtime_compose \<noteq> - 1"
    and es: "environment_start realtime_compose \<noteq> - 1"
    by (simp_all add: realtime_healthcheck_start realtime_environment_start)
  have n: "nat (healthcheck_start realtime_compose) = 67"
    "nat (environment_start realtime_compose) = 158"
    by (simp_all add: realtime_healthcheck_start realtime_environment_start)
  note t = healthcheck_rewrite_replaces_span_text [OF f u d realtime_triggers hs es, unfolded n]
  from t realtime_span_unique realtime_endpoint_inside
  have r: "py_replace realtime_compose (healthcheck_section realtime_compose) new_healthcheck
             = rewritten_compose"
    and gone: "\<not> py_in old_endpoint
                 (py_replace realtime_compose (healthcheck_section realtime_compose)
                    new_healthcheck)"
    unfolding realtime_pieces by blast+
  from t have "files (fix_supabase_realtime_healthcheck ?w)
                 = (files ?w)(supabase_compose_path \<mapsto>
                      translate_newlines (linesep ?w)
                        (py_replace realtime_compose (healthcheck_section realtime_compose)
                           new_healthcheck))"
    and "writes (fix_supabase_realtime_healthcheck ?w) = writes ?w @ [supabase_compose_path]"
    and "py_in new_healthcheck
           (py_replace realtime_compose (healthcheck_section realtime_compose) new_healthcheck)"
    by blast+
  with gone show ?thesis unfolding r by (simp add: supabase_world_def translate_lf)
qed

text \<open>
  In the second sample the span's text \<open>healthcheck: \<close> also occurs before the service name
  and the obsolete path stands in a comment: both occurrences are replaced and the path
  stays.
\<close>

lemma outside_triggers: "triggers path_outside_compose"
  by (simp add: path_outside_compose_def triggers_def py_in_def sublist_code(3)
        old_endpoint_def realtime_name_def)

lemma outside_healthcheck_start: "healthcheck_start path_outside_compose = 92"
  by (simp add: path_outside_compose_def healthcheck_start_def py_find_def realtime_name_def
        Let_def)

lemma outside_environment_start: "environment_start path_outside_compose = 105"
  unfolding environment_start_def outside_healthcheck_start
  by (simp add: path_outside_compose_def py_find_def Let_def)

lemma outside_section: "healthcheck_section path_outside_compose = ''healthcheck: ''"
  unfolding healthcheck_section_def outside_healthcheck_start outside_environment_start
  by (simp add: path_outside_compose_def py_slice_def clip_index_def Let_def)

lemma outside_modified: "modified_content path_outside_compose = twice_rewritten"
  unfolding modified_content_def outside_section
  by (simp add: path_outside_compose_def twice_rewritten_def py_replace_def)

lemma outside_endpoint_stays: "py_in old_endpoint twice_rewritten"
  by (simp add: twice_rewritten_def old_endpoint_def py_in_def sublist_code(3))

lemma outside_not_single:
  "twice_rewritten \<noteq> take 92 path_outside_compose @ new_healthcheck
                        @ drop 105 path_outside_compose"
  by (simp add: twice_rewritten_def path_outside_compose_def new_healthcheck_def)

theorem healthcheck_rewrite_counterexample:
  "triggers path_outside_compose \<and>
   healthcheck_start path_outside_compose = 92 \<and>
   environment_start path_outside_compose = 105 \<and>
   files (fix_supabase_realtime_healthcheck (supabase_world path_outside_compose))
     = [supabase_compose_path \<mapsto> twice_rewritten] \<and>
   twice_rewritten \<noteq> take 92 path_outside_compose @ new_healthcheck
                        @ drop 105 path_outside_compose \<and>
   py_in old_endpoint twice_rewritten"
proof -
  let ?w = "supabase_world path_outside_compose"
  have f: "files ?w supabase_compose_path = Some path_outside_compose"
    and d: "supabase_compose_path \<notin> dirs ?w" "supabase_compose_path \<notin> denied ?w"
    by (simp_all add: supabase_world_def)
  have hs: "healthcheck_start path_outside_compose \<noteq> - 1"
    and es: "environment_start path_outside_compose \<noteq> - 1"
    by (simp_all add: outside_healthcheck_start outside_environment_start)
  have u: "path_outside_compose = universal_newlines path_outside_compose"
    by (rule universal_no_cr [symmetric]) (simp add: path_outside_compose_def)
  from healthcheck_write [OF f u d outside_triggers hs es]
  have "files (fix_supabase_realtime_healthcheck ?w)
          = [supabase_compose_path \<mapsto> twice_rewritten]"
    unfolding outside_modified by (simp add: supabase_world_def translate_lf)
  with outside_triggers outside_healthcheck_start outside_environment_start
    outside_not_single outside_endpoint_stays
  show ?thesis by blast
qed

end
